theory Spec2Isabelle
  imports Complex_Main
begin

section \<open>The full strong branching rule, vanilla version\<close>

text \<open>
  A shallow embedding of \<^verbatim>\<open>src/pyscipopt/branch_fullstrong_vanilla.c\<close>: the
  strong-branch probe \<^verbatim>\<open>SCIPgetVarStrongbranchFracVanilla\<close>, the selection loop
  \<^verbatim>\<open>SCIPselectVarStrongBranchingVanilla\<close>, the execute callback
  \<^verbatim>\<open>branchExeclpFullstrong\<close>, and the creation and destruction of the rule data.

  Conventions of the embedding.
  \<^item> \<^verbatim>\<open>SCIP_Real\<close> is a C double; it is modelled by \<open>real\<close>. The code only
    compares, subtracts and multiplies such values, and \<^verbatim>\<open>SCIPinfinity(scip)\<close> is a
    finite value the host is configured with (a field of the host below), not a
    special symbol.
  \<^item> An array passed with its length (\<^verbatim>\<open>lpcands\<close> and \<^verbatim>\<open>nlpcands\<close>) is a list;
    \<^verbatim>\<open>nlpcands\<close> is its length. A pointer to a block of memory that may be
    \<^verbatim>\<open>NULL\<close> is an \<open>option\<close>.
  \<^item> Output parameters are fields of a record that the function returns updated.
  \<^item> A write to a list at an index beyond its end leaves the list as it is, where
    the C code would write out of bounds. The execute callback, the only caller of
    the selection function, allocates both score buffers with \<^verbatim>\<open>nlpcands\<close> entries,
    and every statement below about an entry of a buffer assumes that length. The
    host hands out at least one candidate (\<^verbatim>\<open>assert(nlpcands > 0)\<close>), so the best
    candidate is an index of the candidate arrays.
  \<^item> The host solver is not part of the repository. It is a record of functions.
    Every host function the code calls inside \<^verbatim>\<open>SCIP_CALL\<close> is recorded, in order,
    in a history; what the host answers (its return codes, whether it is stopped,
    which candidates it hands out) may depend on that history. The answer of the LP
    oracle for a column, the branching factor, the branching score and the cutoff
    bound do not change while one node is processed, and are functions of their
    arguments only.
  \<^item> \<^verbatim>\<open>assert\<close> is compiled out of a release build; the model is the release
    build. \<^verbatim>\<open>SCIPdebugMsg\<close> and \<^verbatim>\<open>SCIPverbMessage\<close> only print.
\<close>

subsection \<open>Types of the host interface\<close>

type_synonym SCIP_Real = real

type_synonym SCIP_VAR = nat

datatype SCIP_RETCODE =
    SCIP_OKAY
  | SCIP_ERROR
  | SCIP_NOMEMORY
  | SCIP_READERROR
  | SCIP_WRITEERROR
  | SCIP_NOFILE
  | SCIP_FILECREATEERROR
  | SCIP_LPERROR
  | SCIP_NOPROBLEM
  | SCIP_INVALIDCALL
  | SCIP_INVALIDDATA
  | SCIP_INVALIDRESULT
  | SCIP_PLUGINNOTFOUND
  | SCIP_PARAMETERUNKNOWN
  | SCIP_PARAMETERWRONGTYPE
  | SCIP_PARAMETERWRONGVAL
  | SCIP_KEYALREADYEXISTING
  | SCIP_MAXDEPTHLEVEL
  | SCIP_BRANCHERROR

datatype SCIP_RESULT =
    SCIP_DIDNOTRUN
  | SCIP_DELAYED
  | SCIP_DIDNOTFIND
  | SCIP_FEASIBLE
  | SCIP_INFEASIBLE
  | SCIP_UNBOUNDED
  | SCIP_CUTOFF
  | SCIP_CONSADDED
  | SCIP_REDUCEDDOM
  | SCIP_SEPARATED
  | SCIP_NEWROUND
  | SCIP_BRANCHED
  | SCIP_SOLVELP
  | SCIP_FOUNDSOL
  | SCIP_SUSPENDED
  | SCIP_SUCCESS
  | SCIP_DELAYNODE

datatype SCIP_VARSTATUS =
    SCIP_VARSTATUS_ORIGINAL
  | SCIP_VARSTATUS_LOOSE
  | SCIP_VARSTATUS_COLUMN
  | SCIP_VARSTATUS_FIXED
  | SCIP_VARSTATUS_AGGREGATED
  | SCIP_VARSTATUS_MULTAGGR
  | SCIP_VARSTATUS_NEGATED

text \<open>The host functions the code calls inside \<^verbatim>\<open>SCIP_CALL\<close>, with the arguments
  that tell one call from another.\<close>

datatype host_call =
    CheckStage
  | ColGetStrongbranch SCIP_VAR int
  | StartStrongbranch bool
  | EndStrongbranch
  | GetLPBranchCands
  | DuplicateBufferArray nat
  | AllocBlockMemoryArray nat
  | BranchVarVal SCIP_VAR SCIP_Real
  | AllocBlockMemory
  | IncludeBranchruleBasic
  | SetBranchruleCopy
  | SetBranchruleFree
  | SetBranchruleInit
  | SetBranchruleExit
  | SetBranchruleExecLp
  | AddBoolParam

type_synonym history = "host_call list"

text \<open>The five output cells of a strong-branching call. The source lets the caller
  pass \<^verbatim>\<open>NULL\<close> for \<^verbatim>\<open>downvalid\<close> and \<^verbatim>\<open>upvalid\<close>, in which case there
  is no such output; the only caller in the repository passes both, and the record
  has both.\<close>

record sb_out =
  down :: SCIP_Real
  up :: SCIP_Real
  downvalid :: bool
  upvalid :: bool
  lperror :: bool

text \<open>What \<^verbatim>\<open>SCIPgetLPBranchCands\<close> hands out: the candidates, their LP values,
  their fractional parts, and the number of priority candidates.\<close>

record lp_branch_cands =
  cands_vars :: "SCIP_VAR list"
  cands_sol :: "SCIP_Real list"
  cands_frac :: "SCIP_Real list"
  cands_nprio :: nat

record SCIP =
  SCIPinfinity :: SCIP_Real
  SCIPisGE :: "SCIP_Real \<Rightarrow> SCIP_Real \<Rightarrow> bool"
  SCIPgetCutoffbound :: SCIP_Real
  SCIPgetLPObjval :: "history \<Rightarrow> SCIP_Real"
  SCIPisStopped :: "history \<Rightarrow> bool"
  SCIPsolveIsStopped :: "history \<Rightarrow> bool"
  SCIPvarGetStatus :: "SCIP_VAR \<Rightarrow> SCIP_VARSTATUS"
  SCIPcolIsInLP :: "SCIP_VAR \<Rightarrow> bool"
  SCIPcolGetStrongbranch :: "SCIP_VAR \<Rightarrow> int \<Rightarrow> sb_out"
  SCIPvarGetBranchFactor :: "SCIP_VAR \<Rightarrow> SCIP_Real"
  SCIPgetBranchScore :: "SCIP_VAR \<Rightarrow> SCIP_Real \<Rightarrow> SCIP_Real \<Rightarrow> SCIP_Real"
  SCIPgetLPBranchCands :: "history \<Rightarrow> lp_branch_cands"
  SCIPretcode :: "history \<Rightarrow> host_call \<Rightarrow> SCIP_RETCODE"

text \<open>\<^verbatim>\<open>SCIP_CALL( f(...) )\<close> for a host function \<open>f\<close>: the call is made, so it
  enters the history, and its return code decides whether the caller goes on.\<close>

definition SCIP_CALL :: "SCIP \<Rightarrow> history \<Rightarrow> host_call \<Rightarrow> SCIP_RETCODE \<times> history" where
  "SCIP_CALL scip h k = (SCIPretcode scip h k, h @ [k])"

definition INT_MAX :: int where
  "INT_MAX = 2147483647"

text \<open>The macro \<^verbatim>\<open>MAX(x,y)\<close> of the host's \<^verbatim>\<open>def.h\<close>:
  \<^verbatim>\<open>((x) >= (y) ? (x) : (y))\<close>.\<close>

definition MAX_Real :: "SCIP_Real \<Rightarrow> SCIP_Real \<Rightarrow> SCIP_Real" where
  "MAX_Real x y = (if x \<ge> y then x else y)"

subsection \<open>The strong-branch probe\<close>

text \<open>\<^verbatim>\<open>SCIPgetVarStrongbranchFracVanilla\<close> (lines 121 to 178). The function gets
  the current content of the output cells and returns the return code, the cells
  and the history.\<close>

definition SCIPgetVarStrongbranchFracVanilla ::
  "SCIP \<Rightarrow> history \<Rightarrow> SCIP_VAR \<Rightarrow> int \<Rightarrow> sb_out \<Rightarrow> SCIP_RETCODE \<times> sb_out \<times> history" where
  "SCIPgetVarStrongbranchFracVanilla scip h var itlim out =
    (case SCIP_CALL scip h CheckStage of (rc, h1) \<Rightarrow>
      if rc \<noteq> SCIP_OKAY then (rc, out, h1)
      else
        let out1 = out\<lparr>downvalid := False, upvalid := False\<rparr> in
        if SCIPvarGetStatus scip var \<noteq> SCIP_VARSTATUS_COLUMN then (SCIP_INVALIDDATA, out1, h1)
        else if \<not> SCIPcolIsInLP scip var then (SCIP_INVALIDDATA, out1, h1)
        else if SCIPsolveIsStopped scip h1 then (SCIP_OKAY, out1\<lparr>lperror := True\<rparr>, h1)
        else
          (case SCIP_CALL scip h1 (ColGetStrongbranch var itlim) of (rc2, h2) \<Rightarrow>
            (rc2, SCIPcolGetStrongbranch scip var itlim, h2)))"

subsection \<open>The selection loop\<close>

text \<open>The output parameters of \<^verbatim>\<open>SCIPselectVarStrongBranchingVanilla\<close>, its two
  score buffers, and its local \<^verbatim>\<open>besthasinf\<close>, which the loop carries from one
  candidate to the next.\<close>

record sel_state =
  bestcand :: nat
  bestdown :: SCIP_Real
  bestup :: SCIP_Real
  bestscore :: SCIP_Real
  bestdownvalid :: bool
  bestupvalid :: bool
  provedbound :: SCIP_Real
  latestscores :: "SCIP_Real list"
  validscores :: "bool list"
  besthasinf :: bool

text \<open>The locals of the loop body after a probe that returned the cells \<open>out\<close>
  (lines 297 to 302): \<^verbatim>\<open>down\<close> and \<^verbatim>\<open>up\<close> raised to the LP objective value,
  the two gains, and the two infeasibility flags.\<close>

definition evaldown :: "SCIP_Real \<Rightarrow> sb_out \<Rightarrow> SCIP_Real" where
  "evaldown lpobjval out = MAX_Real (down out) lpobjval"

definition evalup :: "SCIP_Real \<Rightarrow> sb_out \<Rightarrow> SCIP_Real" where
  "evalup lpobjval out = MAX_Real (up out) lpobjval"

definition downgain :: "SCIP_Real \<Rightarrow> sb_out \<Rightarrow> SCIP_Real" where
  "downgain lpobjval out = evaldown lpobjval out - lpobjval"

definition upgain :: "SCIP_Real \<Rightarrow> sb_out \<Rightarrow> SCIP_Real" where
  "upgain lpobjval out = evalup lpobjval out - lpobjval"

definition downinf :: "SCIP \<Rightarrow> SCIP_Real \<Rightarrow> sb_out \<Rightarrow> bool" where
  "downinf scip lpobjval out =
    (downvalid out \<and> SCIPisGE scip (evaldown lpobjval out) (SCIPgetCutoffbound scip))"

definition upinf :: "SCIP \<Rightarrow> SCIP_Real \<Rightarrow> sb_out \<Rightarrow> bool" where
  "upinf scip lpobjval out =
    (upvalid out \<and> SCIPisGE scip (evalup lpobjval out) (SCIPgetCutoffbound scip))"

text \<open>The score of the candidate (the assignments to \<^verbatim>\<open>score\<close> in lines 305 to
  324).\<close>

definition score :: "SCIP \<Rightarrow> SCIP_Real \<Rightarrow> SCIP_VAR \<Rightarrow> sb_out \<Rightarrow> SCIP_Real" where
  "score scip lpobjval var out =
    (if downinf scip lpobjval out \<and> upinf scip lpobjval out then SCIPinfinity scip
     else if downinf scip lpobjval out then upgain lpobjval out * SCIPvarGetBranchFactor scip var
     else if upinf scip lpobjval out then downgain lpobjval out * SCIPvarGetBranchFactor scip var
     else SCIPgetBranchScore scip var (downgain lpobjval out) (upgain lpobjval out))"

text \<open>The rest of the loop body after a probe without error (lines 305 to 347):
  the write of \<^verbatim>\<open>validscores[c]\<close> in the last branch of the case split, the write of
  \<^verbatim>\<open>latestscores[c]\<close>, and the update of the best candidate. The second component
  tells whether the \<^verbatim>\<open>break\<close> of line 345 is taken.\<close>

definition eval_cand ::
  "SCIP \<Rightarrow> bool \<Rightarrow> SCIP_Real \<Rightarrow> SCIP_VAR \<Rightarrow> nat \<Rightarrow> sb_out \<Rightarrow> sel_state \<Rightarrow> sel_state \<times> bool" where
  "eval_cand scip forcestrongbranch lpobjval var c out st =
    (let st1 = (if downinf scip lpobjval out \<or> upinf scip lpobjval out then st
                else st\<lparr>validscores := (validscores st)[c := True]\<rparr>);
         st2 = st1\<lparr>latestscores := (latestscores st1)[c := score scip lpobjval var out]\<rparr>
     in
       if (score scip lpobjval var out > bestscore st2
             \<and> (downinf scip lpobjval out \<or> upinf scip lpobjval out \<or> \<not> besthasinf st2))
          \<or> (\<not> besthasinf st2 \<and> (downinf scip lpobjval out \<or> upinf scip lpobjval out))
       then
         (let st3 = st2\<lparr>bestcand := c,
                         bestdown := evaldown lpobjval out,
                         bestup := evalup lpobjval out,
                         bestdownvalid := downvalid out,
                         bestupvalid := upvalid out,
                         bestscore := score scip lpobjval var out\<rparr>;
              st4 = (if downinf scip lpobjval out \<or> upinf scip lpobjval out
                     then st3\<lparr>besthasinf := True\<rparr> else st3)
          in (st4, \<not> forcestrongbranch \<and> downinf scip lpobjval out \<and> upinf scip lpobjval out))
       else (st2, False))"

text \<open>One pass through the loop body for candidate \<open>c\<close> (lines 275 to 351). The
  locals \<^verbatim>\<open>downvalid\<close>, \<^verbatim>\<open>upvalid\<close> and \<^verbatim>\<open>lperror\<close> are not initialised in
  the source; the probe writes each of them before the body reads it, so the model
  hands \<open>False\<close> to the probe. \<open>Return\<close> is the early return of \<^verbatim>\<open>SCIP_CALL\<close>,
  \<open>Break\<close> a \<^verbatim>\<open>break\<close> (line 293 or line 345).\<close>

datatype loop_step =
    Continue sel_state history
  | Break sel_state history
  | Return SCIP_RETCODE sel_state history

definition fresh_out :: "SCIP \<Rightarrow> sb_out" where
  "fresh_out scip =
    \<lparr>down = - SCIPinfinity scip, up = - SCIPinfinity scip,
     downvalid = False, upvalid = False, lperror = False\<rparr>"

definition loop_body ::
  "SCIP \<Rightarrow> SCIP_VAR list \<Rightarrow> bool \<Rightarrow> SCIP_Real \<Rightarrow> nat \<Rightarrow> sel_state \<Rightarrow> history \<Rightarrow> loop_step" where
  "loop_body scip lpcands forcestrongbranch lpobjval c st h =
    (case SCIPgetVarStrongbranchFracVanilla scip h (lpcands ! c) INT_MAX (fresh_out scip) of
      (rc, out, h1) \<Rightarrow>
        if rc \<noteq> SCIP_OKAY then Return rc st h1
        else if lperror out then Break st h1
        else
          (case eval_cand scip forcestrongbranch lpobjval (lpcands ! c) c out st of
            (st1, brk) \<Rightarrow> if brk then Break st1 h1 else Continue st1 h1))"

text \<open>The loop \<^verbatim>\<open>for( c = 0; c < nlpcands; ++c )\<close> of line 273, from the head of
  iteration \<open>c\<close>. A return code other than \<^verbatim>\<open>SCIP_OKAY\<close> is an early return from
  the whole function.\<close>

function select_loop ::
  "SCIP \<Rightarrow> SCIP_VAR list \<Rightarrow> bool \<Rightarrow> SCIP_Real \<Rightarrow> nat \<Rightarrow> sel_state \<Rightarrow> history
    \<Rightarrow> SCIP_RETCODE \<times> sel_state \<times> history" where
  "select_loop scip lpcands forcestrongbranch lpobjval c st h =
    (if c < length lpcands then
       (case loop_body scip lpcands forcestrongbranch lpobjval c st h of
          Continue st1 h1 \<Rightarrow> select_loop scip lpcands forcestrongbranch lpobjval (c + 1) st1 h1
        | Break st1 h1 \<Rightarrow> (SCIP_OKAY, st1, h1)
        | Return rc st1 h1 \<Rightarrow> (rc, st1, h1))
     else (SCIP_OKAY, st, h))"
  by pat_completeness auto
termination
  by (relation "measure (\<lambda>(scip, lpcands, forcestrongbranch, lpobjval, c, st, h). length lpcands - c)")
    auto

declare select_loop.simps [simp del]

text \<open>The loop of lines 262 to 266 that empties the score buffers.\<close>

definition empty_score_buffer :: "SCIP \<Rightarrow> nat \<Rightarrow> sel_state \<Rightarrow> sel_state" where
  "empty_score_buffer scip nlpcands st =
    fold (\<lambda>c s. s\<lparr>latestscores := (latestscores s)[c := - SCIPinfinity scip],
                      validscores := (validscores s)[c := False]\<rparr>) [0..<nlpcands] st"

text \<open>The values the outputs get before anything else is done (lines 238 to 246).
  \<^verbatim>\<open>besthasinf\<close> is set in line 272, just before the loop, and read only in the
  loop.\<close>

definition init_best :: "SCIP_Real \<Rightarrow> SCIP_Real \<Rightarrow> SCIP_Real list \<Rightarrow> bool list \<Rightarrow> sel_state" where
  "init_best lpobjval infinity ls vs =
    \<lparr>bestcand = 0, bestdown = lpobjval, bestup = lpobjval, bestscore = - infinity,
     bestdownvalid = True, bestupvalid = True, provedbound = lpobjval,
     latestscores = ls, validscores = vs, besthasinf = False\<rparr>"

text \<open>\<^verbatim>\<open>SCIPselectVarStrongBranchingVanilla\<close> (lines 188 to 358). The parameters
  \<^verbatim>\<open>lpcandssol\<close>, \<^verbatim>\<open>lpcandsfrac\<close> and \<^verbatim>\<open>npriolpcands\<close> are only printed, and
  \<^verbatim>\<open>result\<close> is never written; the model returns \<open>result\<close> as it got it.\<close>

definition SCIPselectVarStrongBranchingVanilla ::
  "SCIP \<Rightarrow> history \<Rightarrow> SCIP_VAR list \<Rightarrow> SCIP_Real list \<Rightarrow> SCIP_Real list \<Rightarrow> nat \<Rightarrow> bool
    \<Rightarrow> SCIP_Real list \<Rightarrow> bool list \<Rightarrow> SCIP_RESULT
    \<Rightarrow> SCIP_RETCODE \<times> sel_state \<times> SCIP_RESULT \<times> history" where
  "SCIPselectVarStrongBranchingVanilla scip h lpcands lpcandssol lpcandsfrac npriolpcands
      forcestrongbranch ls vs result =
    (let lpobjval = SCIPgetLPObjval scip h;
         st0 = init_best lpobjval (SCIPinfinity scip) ls vs
     in
       if (\<not> forcestrongbranch \<and> length lpcands = 1) \<or> SCIPisStopped scip h
       then (SCIP_OKAY, st0, result, h)
       else
         (case SCIP_CALL scip h (StartStrongbranch False) of (rc, h1) \<Rightarrow>
           if rc \<noteq> SCIP_OKAY then (rc, st0, result, h1)
           else
             (case select_loop scip lpcands forcestrongbranch lpobjval 0
                     (empty_score_buffer scip (length lpcands) st0) h1 of
               (rc2, st2, h2) \<Rightarrow>
                 if rc2 \<noteq> SCIP_OKAY then (rc2, st2, result, h2)
                 else
                   (case SCIP_CALL scip h2 EndStrongbranch of (rc3, h3) \<Rightarrow>
                     (rc3, st2, result, h3)))))"

subsection \<open>The rule data and the callbacks\<close>

text \<open>\<^verbatim>\<open>struct SCIP_BranchruleData\<close> (lines 44 to 50). The two buffers are
  pointers, \<open>None\<close> when \<^verbatim>\<open>NULL\<close>.\<close>

record SCIP_BranchruleData =
  data_forcestrongbranch :: bool
  data_scoresize :: nat
  data_latestscores :: "SCIP_Real list option"
  data_validscores :: "bool list option"


text \<open>\<^verbatim>\<open>BMSclearMemoryArray\<close> of the host's memory shell fills a block with zero
  bytes: every \<^verbatim>\<open>SCIP_Real\<close> of it reads \<open>0\<close> and every \<^verbatim>\<open>SCIP_Bool\<close>
  reads \<^verbatim>\<open>FALSE\<close>.\<close>

definition BMSclearMemoryArray_Real :: "SCIP_Real list \<Rightarrow> SCIP_Real list" where
  "BMSclearMemoryArray_Real xs = map (\<lambda>_. 0) xs"

definition BMSclearMemoryArray_Bool :: "bool list \<Rightarrow> bool list" where
  "BMSclearMemoryArray_Bool xs = map (\<lambda>_. False) xs"

text \<open>A block fresh from \<^verbatim>\<open>SCIPallocBlockMemoryArray\<close> has the length asked for and
  a content the code must not read; the model fills it with a value that the code
  overwrites before any read.\<close>

definition fresh_block :: "nat \<Rightarrow> 'a \<Rightarrow> 'a list" where
  "fresh_block n x = replicate n x"

text \<open>\<^verbatim>\<open>branchExeclpFullstrong\<close> (lines 362 to 461). It returns the return code,
  the rule data, the result flag and the history. The three duplicated candidate
  arrays are copies of what the host handed out.\<close>

definition branchExeclpFullstrong ::
  "SCIP \<Rightarrow> history \<Rightarrow> SCIP_BranchruleData
    \<Rightarrow> SCIP_RETCODE \<times> SCIP_BranchruleData \<times> SCIP_RESULT \<times> history" where
  "branchExeclpFullstrong scip h d =
    (let result = SCIP_DIDNOTRUN;
         tmp = SCIPgetLPBranchCands scip h;
         nlpcands = length (cands_vars tmp)
     in
     case SCIP_CALL scip h GetLPBranchCands of (rc1, h1) \<Rightarrow>
     if rc1 \<noteq> SCIP_OKAY then (rc1, d, result, h1) else
     case SCIP_CALL scip h1 (DuplicateBufferArray nlpcands) of (rc2, h2) \<Rightarrow>
     if rc2 \<noteq> SCIP_OKAY then (rc2, d, result, h2) else
     case SCIP_CALL scip h2 (DuplicateBufferArray nlpcands) of (rc3, h3) \<Rightarrow>
     if rc3 \<noteq> SCIP_OKAY then (rc3, d, result, h3) else
     case SCIP_CALL scip h3 (DuplicateBufferArray nlpcands) of (rc4, h4) \<Rightarrow>
     if rc4 \<noteq> SCIP_OKAY then (rc4, d, result, h4) else
     let lpcands = cands_vars tmp;
         lpcandssol = cands_sol tmp;
         lpcandsfrac = cands_frac tmp;
         d1 = (if data_latestscores d \<noteq> None
               then d\<lparr>data_latestscores := None, data_validscores := None\<rparr> else d);
         d2 = d1\<lparr>data_scoresize := nlpcands\<rparr>
     in
     case SCIP_CALL scip h4 (AllocBlockMemoryArray (data_scoresize d2)) of (rc5, h5) \<Rightarrow>
     if rc5 \<noteq> SCIP_OKAY then (rc5, d2\<lparr>data_latestscores := None\<rparr>, result, h5) else
     let d3 = d2\<lparr>data_latestscores := Some (fresh_block (data_scoresize d2) 0)\<rparr> in
     case SCIP_CALL scip h5 (AllocBlockMemoryArray (data_scoresize d3)) of (rc6, h6) \<Rightarrow>
     if rc6 \<noteq> SCIP_OKAY then (rc6, d3\<lparr>data_validscores := None\<rparr>, result, h6) else
     let ls = BMSclearMemoryArray_Real (fresh_block (data_scoresize d3) 0);
         vs = BMSclearMemoryArray_Bool (fresh_block (data_scoresize d3) False)
     in
     case SCIPselectVarStrongBranchingVanilla scip h6 lpcands lpcandssol lpcandsfrac
            (cands_nprio tmp) (data_forcestrongbranch d3) ls vs result of
       (rc7, st, result7, h7) \<Rightarrow>
     let d4 = d3\<lparr>data_latestscores := Some (latestscores st),
                   data_validscores := Some (validscores st)\<rparr>
     in
     if rc7 \<noteq> SCIP_OKAY then (rc7, d4, result7, h7) else
     let var = lpcands ! bestcand st;
         val = lpcandssol ! bestcand st
     in
     case SCIP_CALL scip h7 (BranchVarVal var val) of (rc8, h8) \<Rightarrow>
     if rc8 \<noteq> SCIP_OKAY then (rc8, d4, result7, h8)
     else (SCIP_OKAY, d4, SCIP_BRANCHED, h8))"




text \<open>The accessors of lines 504 to 528.\<close>

definition SCIPgetFullstrongVanillaLatestScores :: "SCIP_BranchruleData \<Rightarrow> SCIP_Real list option" where
  "SCIPgetFullstrongVanillaLatestScores d = data_latestscores d"

definition SCIPgetFullstrongVanillaValidScores :: "SCIP_BranchruleData \<Rightarrow> bool list option" where
  "SCIPgetFullstrongVanillaValidScores d = data_validscores d"

subsection \<open>Vocabulary of the statements\<close>

text \<open>The state a pass through the loop body leaves, whichever way the pass ends.\<close>

fun step_state :: "loop_step \<Rightarrow> sel_state" where
  "step_state (Continue st h) = st"
| "step_state (Break st h) = st"
| "step_state (Return rc st h) = st"

text \<open>\<open>reach scip lpcands force lpobjval n c st h = Some (st', h')\<close>: the loop, at the
  head of iteration \<open>c\<close> with state \<open>st\<close> and history \<open>h\<close>, goes through \<open>n\<close> whole
  iterations, none of which leaves the loop, and stands at the head of iteration
  \<open>c + n\<close> with state \<open>st'\<close> and history \<open>h'\<close>.\<close>

fun reach ::
  "SCIP \<Rightarrow> SCIP_VAR list \<Rightarrow> bool \<Rightarrow> SCIP_Real \<Rightarrow> nat \<Rightarrow> nat \<Rightarrow> sel_state \<Rightarrow> history
    \<Rightarrow> (sel_state \<times> history) option" where
  "reach scip lpcands force lpobjval 0 c st h = Some (st, h)"
| "reach scip lpcands force lpobjval (Suc n) c st h =
    (if c < length lpcands then
       (case loop_body scip lpcands force lpobjval c st h of
          Continue st1 h1 \<Rightarrow> reach scip lpcands force lpobjval n (c + 1) st1 h1
        | Break st1 h1 \<Rightarrow> None
        | Return rc st1 h1 \<Rightarrow> None)
     else None)"

text \<open>The selection function gets past its two early exits (lines 251 to 258): it
  does not return at once, and the host lets it start strong branching.\<close>

definition enters_loop :: "SCIP \<Rightarrow> history \<Rightarrow> SCIP_VAR list \<Rightarrow> bool \<Rightarrow> bool" where
  "enters_loop scip h lpcands force =
    (\<not> ((\<not> force \<and> length lpcands = 1) \<or> SCIPisStopped scip h)
     \<and> SCIPretcode scip h (StartStrongbranch False) = SCIP_OKAY)"

text \<open>The state at the head of iteration 0: the initial outputs, with the buffers
  emptied.\<close>

definition loop_entry ::
  "SCIP \<Rightarrow> history \<Rightarrow> SCIP_VAR list \<Rightarrow> SCIP_Real list \<Rightarrow> bool list \<Rightarrow> sel_state" where
  "loop_entry scip h lpcands ls vs =
    empty_score_buffer scip (length lpcands)
      (init_best (SCIPgetLPObjval scip h) (SCIPinfinity scip) ls vs)"

text \<open>What the LP oracle answers for candidate \<open>j\<close>, and the class and the score the
  loop body derives from that answer.\<close>

definition cand_out :: "SCIP \<Rightarrow> SCIP_VAR list \<Rightarrow> nat \<Rightarrow> sb_out" where
  "cand_out scip lpcands j = SCIPcolGetStrongbranch scip (lpcands ! j) INT_MAX"

definition both_inf :: "SCIP \<Rightarrow> SCIP_Real \<Rightarrow> SCIP_VAR list \<Rightarrow> nat \<Rightarrow> bool" where
  "both_inf scip lpobjval lpcands j =
    (downinf scip lpobjval (cand_out scip lpcands j) \<and> upinf scip lpobjval (cand_out scip lpcands j))"

definition one_inf :: "SCIP \<Rightarrow> SCIP_Real \<Rightarrow> SCIP_VAR list \<Rightarrow> nat \<Rightarrow> bool" where
  "one_inf scip lpobjval lpcands j =
    (downinf scip lpobjval (cand_out scip lpcands j) \<noteq> upinf scip lpobjval (cand_out scip lpcands j))"

definition cand_score :: "SCIP \<Rightarrow> SCIP_Real \<Rightarrow> SCIP_VAR list \<Rightarrow> nat \<Rightarrow> SCIP_Real" where
  "cand_score scip lpobjval lpcands j = score scip lpobjval (lpcands ! j) (cand_out scip lpcands j)"


text \<open>The history of the execute callback once it has fetched and copied \<open>n\<close>
  candidates and allocated the two buffers, and the condition that the host let
  each of these six calls succeed.\<close>

definition exec_prefix :: "history \<Rightarrow> nat \<Rightarrow> history" where
  "exec_prefix h n =
    h @ [GetLPBranchCands, DuplicateBufferArray n, DuplicateBufferArray n,
         DuplicateBufferArray n, AllocBlockMemoryArray n, AllocBlockMemoryArray n]"

definition cands_copied :: "SCIP \<Rightarrow> history \<Rightarrow> nat \<Rightarrow> bool" where
  "cands_copied scip h n =
    (SCIPretcode scip h GetLPBranchCands = SCIP_OKAY
     \<and> SCIPretcode scip (h @ [GetLPBranchCands]) (DuplicateBufferArray n) = SCIP_OKAY
     \<and> SCIPretcode scip (h @ [GetLPBranchCands, DuplicateBufferArray n])
           (DuplicateBufferArray n) = SCIP_OKAY
     \<and> SCIPretcode scip (h @ [GetLPBranchCands, DuplicateBufferArray n, DuplicateBufferArray n])
           (DuplicateBufferArray n) = SCIP_OKAY)"

definition first_alloc_ok :: "SCIP \<Rightarrow> history \<Rightarrow> nat \<Rightarrow> bool" where
  "first_alloc_ok scip h n =
    (SCIPretcode scip
       (h @ [GetLPBranchCands, DuplicateBufferArray n, DuplicateBufferArray n,
             DuplicateBufferArray n])
       (AllocBlockMemoryArray n) = SCIP_OKAY)"

definition second_alloc_ok :: "SCIP \<Rightarrow> history \<Rightarrow> nat \<Rightarrow> bool" where
  "second_alloc_ok scip h n =
    (SCIPretcode scip
       (h @ [GetLPBranchCands, DuplicateBufferArray n, DuplicateBufferArray n,
             DuplicateBufferArray n, AllocBlockMemoryArray n])
       (AllocBlockMemoryArray n) = SCIP_OKAY)"

subsection \<open>Example hosts\<close>

text \<open>A host with LP objective value 10, cutoff bound 100 and the value
  \<open>10\<^sup>2\<^sup>0\<close> for infinity, which never stops and never fails, compares exactly,
  scores two gains by their product with a small floor, and hands out the candidates
  0, 1 and 2. The oracle answers from the table \<open>sb\<close>.\<close>

definition test_scip :: "sb_out list \<Rightarrow> (SCIP_VAR \<Rightarrow> SCIP_Real) \<Rightarrow> SCIP" where
  "test_scip sb factor =
    \<lparr>SCIPinfinity = 100000000000000000000,
     SCIPisGE = (\<lambda>a b. a \<ge> b),
     SCIPgetCutoffbound = 100,
     SCIPgetLPObjval = (\<lambda>h. 10),
     SCIPisStopped = (\<lambda>h. False),
     SCIPsolveIsStopped = (\<lambda>h. False),
     SCIPvarGetStatus = (\<lambda>v. SCIP_VARSTATUS_COLUMN),
     SCIPcolIsInLP = (\<lambda>v. True),
     SCIPcolGetStrongbranch = (\<lambda>v itlim. sb ! v),
     SCIPvarGetBranchFactor = factor,
     SCIPgetBranchScore = (\<lambda>v g g'. MAX_Real g (1 / 1000000) * MAX_Real g' (1 / 1000000)),
     SCIPgetLPBranchCands =
       (\<lambda>h. \<lparr>cands_vars = [0, 1, 2], cands_sol = [1 / 2, 3 / 2, 5 / 2],
               cands_frac = [1 / 2, 1 / 2, 1 / 2], cands_nprio = 3\<rparr>),
     SCIPretcode = (\<lambda>h k. SCIP_OKAY)\<rparr>"

text \<open>An answer of the oracle with both bounds valid and no LP error, and one with an
  LP error.\<close>

definition bounds :: "SCIP_Real \<Rightarrow> SCIP_Real \<Rightarrow> sb_out" where
  "bounds d u = \<lparr>down = d, up = u, downvalid = True, upvalid = True, lperror = False\<rparr>"

definition lp_failed :: sb_out where
  "lp_failed = \<lparr>down = 0, up = 0, downvalid = False, upvalid = False, lperror = True\<rparr>"

text \<open>The same host when the solving process is being stopped at the time of a
  probe.\<close>

definition stopping_scip :: SCIP where
  "stopping_scip = (test_scip [bounds 11 12] (\<lambda>v. 1))\<lparr>SCIPsolveIsStopped := (\<lambda>h. True)\<rparr>"

text \<open>Two states of the loop after candidate 0, with three candidates in all: one in
  which the best candidate is regular (its bounds were 15 and 20, its score is 50),
  and one in which it has an infeasible side (its bounds were 100 and 15, its score
  is 5).\<close>

definition best_is_regular :: sel_state where
  "best_is_regular =
    \<lparr>bestcand = 0, bestdown = 15, bestup = 20, bestscore = 50,
     bestdownvalid = True, bestupvalid = True, provedbound = 10,
     latestscores = [50, - 100000000000000000000, - 100000000000000000000],
     validscores = [True, False, False],
     besthasinf = False\<rparr>"

definition best_is_infeasible :: sel_state where
  "best_is_infeasible =
    \<lparr>bestcand = 0, bestdown = 100, bestup = 15, bestscore = 5,
     bestdownvalid = True, bestupvalid = True, provedbound = 10,
     latestscores = [5, - 100000000000000000000, - 100000000000000000000],
     validscores = [False, False, False],
     besthasinf = True\<rparr>"

text \<open>The history at the head of iteration 1, and after the probe of candidate 1.\<close>

definition after_cand0 :: history where
  "after_cand0 = [StartStrongbranch False, CheckStage, ColGetStrongbranch 0 INT_MAX]"

definition after_cand1 :: history where
  "after_cand1 = after_cand0 @ [CheckStage, ColGetStrongbranch 1 INT_MAX]"

text \<open>The state of the loop after a regular candidate 0 with bounds 11 and 12, whose
  score is 2.\<close>

definition scored_cand0 :: sel_state where
  "scored_cand0 =
    \<lparr>bestcand = 0, bestdown = 11, bestup = 12, bestscore = 2,
     bestdownvalid = True, bestupvalid = True, provedbound = 10,
     latestscores = [2, - 100000000000000000000, - 100000000000000000000],
     validscores = [True, False, False],
     besthasinf = False\<rparr>"

text \<open>The history once all three candidates have been probed.\<close>

definition all_probed :: history where
  "all_probed = after_cand1 @ [CheckStage, ColGetStrongbranch 2 INT_MAX]"

text \<open>Two states in which candidate 1, infeasible on both sides with bounds 101 and
  102, is the best: the first when the loop stops at it after a candidate 0 with one
  infeasible side and score 5, the second when four candidates have been scored, of
  which candidates 0 and 2 have one infeasible side and candidate 3 is infeasible on
  both sides as well.\<close>

definition infeasible_after_one_sided :: sel_state where
  "infeasible_after_one_sided =
    \<lparr>bestcand = 1, bestdown = 101, bestup = 102, bestscore = 100000000000000000000,
     bestdownvalid = True, bestupvalid = True, provedbound = 10,
     latestscores = [5, 100000000000000000000, - 100000000000000000000],
     validscores = [False, False, False],
     besthasinf = True\<rparr>"

definition first_infeasible_of_four :: sel_state where
  "first_infeasible_of_four =
    \<lparr>bestcand = 1, bestdown = 101, bestup = 102, bestscore = 100000000000000000000,
     bestdownvalid = True, bestupvalid = True, provedbound = 10,
     latestscores = [5, 100000000000000000000, 15, 100000000000000000000],
     validscores = [False, False, False, False],
     besthasinf = True\<rparr>"

text \<open>The history once a fourth candidate has been probed.\<close>

definition four_probed :: history where
  "four_probed = all_probed @ [CheckStage, ColGetStrongbranch 3 INT_MAX]"

text \<open>Branching factors that are 1 but for the variable \<open>w\<close>, whose factor is as large
  as the host's infinity.\<close>

definition huge_factor :: "SCIP_VAR \<Rightarrow> SCIP_VAR \<Rightarrow> SCIP_Real" where
  "huge_factor w v = (if v = w then 100000000000000000000 else 1)"

text \<open>The rule data as \<^verbatim>\<open>SCIPincludeBranchruleFullstrongVanilla\<close> creates it.\<close>

definition created_data :: SCIP_BranchruleData where
  "created_data =
    \<lparr>data_forcestrongbranch = True, data_scoresize = 0,
     data_latestscores = None, data_validscores = None\<rparr>"

text \<open>Hosts for the execute callback: one that hands out a single candidate, one that
  is stopped when the selection starts, one whose allocator fails at the second
  buffer, and one whose branching call fails.\<close>

definition single_cand_scip :: SCIP where
  "single_cand_scip =
    (test_scip [bounds 11 12] (\<lambda>v. 1))
      \<lparr>SCIPgetLPBranchCands :=
         (\<lambda>h. \<lparr>cands_vars = [0], cands_sol = [1 / 2], cands_frac = [1 / 2], cands_nprio = 1\<rparr>)\<rparr>"

definition stopped_scip :: SCIP where
  "stopped_scip =
    (test_scip [bounds 11 12, bounds 13 14, bounds 15 16] (\<lambda>v. 1))\<lparr>SCIPisStopped := (\<lambda>h. True)\<rparr>"


definition branching_fails_scip :: SCIP where
  "branching_fails_scip =
    (test_scip [bounds 11 12, bounds 13 14, bounds 15 16] (\<lambda>v. 1))
      \<lparr>SCIPretcode := (\<lambda>h k. if k = BranchVarVal 2 (5 / 2) then SCIP_BRANCHERROR else SCIP_OKAY)\<rparr>"

section \<open>Properties\<close>

subsection \<open>The probe\<close>

text \<open>
  C4, as the code has it. When the solving process is being stopped, the stage check
  passes and the variable is a column of the current LP, the probe returns
  \<^verbatim>\<open>SCIP_OKAY\<close> with \<^verbatim>\<open>lperror\<close> set; \<^verbatim>\<open>down\<close> and \<^verbatim>\<open>up\<close> keep their
  content, \<^verbatim>\<open>downvalid\<close> and \<^verbatim>\<open>upvalid\<close> are reset to \<^verbatim>\<open>FALSE\<close>, and the LP
  oracle is not called: the stage check is the only call made.
\<close>

theorem probe_when_stopped:
  assumes "SCIPretcode scip h CheckStage = SCIP_OKAY"
    and "SCIPvarGetStatus scip var = SCIP_VARSTATUS_COLUMN"
    and "SCIPcolIsInLP scip var"
    and "SCIPsolveIsStopped scip (h @ [CheckStage])"
  shows "SCIPgetVarStrongbranchFracVanilla scip h var itlim out =
    (SCIP_OKAY, out\<lparr>downvalid := False, upvalid := False, lperror := True\<rparr>, h @ [CheckStage])"
  using assms by (simp add: SCIPgetVarStrongbranchFracVanilla_def SCIP_CALL_def)

theorem probe_when_stopped_witness:
  "SCIPgetVarStrongbranchFracVanilla stopping_scip [] 0 INT_MAX (bounds 11 12) =
    (SCIP_OKAY,
     \<lparr>down = 11, up = 12, downvalid = False, upvalid = False, lperror = True\<rparr>,
     [CheckStage])"
  using probe_when_stopped [of stopping_scip "[]" 0 INT_MAX "bounds 11 12"]
  by (simp add: stopping_scip_def test_scip_def bounds_def)

text \<open>C4 as stated fails: a probe of a stopping solver that is handed
  \<^verbatim>\<open>downvalid = TRUE\<close> and \<^verbatim>\<open>upvalid = TRUE\<close> returns with both \<^verbatim>\<open>FALSE\<close>.\<close>

theorem probe_when_stopped_resets_valid_flags:
  "SCIPsolveIsStopped stopping_scip [CheckStage]
   \<and> downvalid (bounds 11 12) \<and> upvalid (bounds 11 12)
   \<and> fst (SCIPgetVarStrongbranchFracVanilla stopping_scip [] 0 INT_MAX (bounds 11 12)) = SCIP_OKAY
   \<and> \<not> downvalid (fst (snd (SCIPgetVarStrongbranchFracVanilla stopping_scip [] 0 INT_MAX (bounds 11 12))))
   \<and> \<not> upvalid (fst (snd (SCIPgetVarStrongbranchFracVanilla stopping_scip [] 0 INT_MAX (bounds 11 12))))"
  by (simp add: SCIPgetVarStrongbranchFracVanilla_def SCIP_CALL_def stopping_scip_def
      test_scip_def bounds_def)

subsection \<open>One pass through the loop body\<close>

lemma loop_body_ok:
  assumes "SCIPgetVarStrongbranchFracVanilla scip h (lpcands ! c) INT_MAX (fresh_out scip) =
      (SCIP_OKAY, out, h')"
    and "\<not> lperror out"
  shows "loop_body scip lpcands force lpobjval c st h =
    (if snd (eval_cand scip force lpobjval (lpcands ! c) c out st)
     then Break (fst (eval_cand scip force lpobjval (lpcands ! c) c out st)) h'
     else Continue (fst (eval_cand scip force lpobjval (lpcands ! c) c out st)) h')"
  using assms by (simp add: loop_body_def split: prod.splits)

lemma step_state_ok:
  assumes "SCIPgetVarStrongbranchFracVanilla scip h (lpcands ! c) INT_MAX (fresh_out scip) =
      (SCIP_OKAY, out, h')"
    and "\<not> lperror out"
  shows "step_state (loop_body scip lpcands force lpobjval c st h) =
     fst (eval_cand scip force lpobjval (lpcands ! c) c out st)"
  using assms by (simp add: loop_body_ok)

lemmas example_defs =
  test_scip_def bounds_def SCIP_CALL_def SCIPgetVarStrongbranchFracVanilla_def fresh_out_def
  score_def downinf_def upinf_def downgain_def upgain_def evaldown_def evalup_def MAX_Real_def
  after_cand0_def after_cand1_def

text \<open>
  C1, as the code has it. Once the best candidate has an infeasible side
  (\<^verbatim>\<open>besthasinf\<close> is true), a later candidate whose probe succeeds displaces it exactly
  when that candidate has an infeasible side itself and its score is strictly higher
  than \<^verbatim>\<open>bestscore\<close>. In every other case, so for every regular candidate whatever
  its score, the best candidate and its recorded values stay as they are.
\<close>

theorem best_with_infeasibility_displaced_iff:
  assumes "SCIPgetVarStrongbranchFracVanilla scip h (lpcands ! c) INT_MAX (fresh_out scip) =
      (SCIP_OKAY, out, h')"
    and "\<not> lperror out"
    and "besthasinf st"
  shows "(let st' = step_state (loop_body scip lpcands force lpobjval c st h) in
    besthasinf st' \<and>
    (if score scip lpobjval (lpcands ! c) out > bestscore st
        \<and> (downinf scip lpobjval out \<or> upinf scip lpobjval out)
     then bestcand st' = c \<and> bestscore st' = score scip lpobjval (lpcands ! c) out
       \<and> bestdown st' = evaldown lpobjval out \<and> bestup st' = evalup lpobjval out
       \<and> bestdownvalid st' = downvalid out \<and> bestupvalid st' = upvalid out
     else bestcand st' = bestcand st \<and> bestscore st' = bestscore st
       \<and> bestdown st' = bestdown st \<and> bestup st' = bestup st
       \<and> bestdownvalid st' = bestdownvalid st \<and> bestupvalid st' = bestupvalid st))"
  using assms(3) unfolding step_state_ok [OF assms(1,2)]
  by (auto simp add: eval_cand_def Let_def)

text \<open>At candidate 1 with bounds 100 and 25: the down side is infeasible and the score
  15 is higher than 5, so the candidate becomes the best.\<close>

theorem best_with_infeasibility_displaced_iff_witness:
  "besthasinf best_is_infeasible \<and> bestscore best_is_infeasible = 5
   \<and> downinf (test_scip [bounds 100 15, bounds 100 25] (\<lambda>v. 1)) 10 (bounds 100 25)
   \<and> score (test_scip [bounds 100 15, bounds 100 25] (\<lambda>v. 1)) 10 1 (bounds 100 25) = 15
   \<and> bestcand (step_state (loop_body (test_scip [bounds 100 15, bounds 100 25] (\<lambda>v. 1))
        [0, 1, 2] True 10 1 best_is_infeasible after_cand0)) = 1
   \<and> bestscore (step_state (loop_body (test_scip [bounds 100 15, bounds 100 25] (\<lambda>v. 1))
        [0, 1, 2] True 10 1 best_is_infeasible after_cand0)) = 15"
  using best_with_infeasibility_displaced_iff
    [where scip = "test_scip [bounds 100 15, bounds 100 25] (\<lambda>v. 1)" and lpcands = "[0, 1, 2]"
       and c = 1 and h = after_cand0 and out = "bounds 100 25" and h' = after_cand1
       and lpobjval = 10 and st = best_is_infeasible and force = True]
  by (simp add: best_is_infeasible_def example_defs Let_def)

text \<open>C1 as stated fails. Candidate 0 has bounds 100 and 15: its down side is
  infeasible and its score is 5; after it the loop is in the state
  \<open>best_is_infeasible\<close>. Candidate 1 has bounds 15 and 20: it is regular and its score
  50 is strictly higher than 5. It does not displace candidate 0.\<close>

theorem regular_candidate_does_not_displace_infeasible_best:
  "reach (test_scip [bounds 100 15, bounds 15 20] (\<lambda>v. 1)) [0, 1, 2] True 10 1 0
     (loop_entry (test_scip [bounds 100 15, bounds 15 20] (\<lambda>v. 1)) [] [0, 1, 2]
        [0, 0, 0] [False, False, False])
     [StartStrongbranch False] = Some (best_is_infeasible, after_cand0)
   \<and> besthasinf best_is_infeasible \<and> bestcand best_is_infeasible = 0
   \<and> bestscore best_is_infeasible = 5
   \<and> \<not> downinf (test_scip [bounds 100 15, bounds 15 20] (\<lambda>v. 1)) 10 (bounds 15 20)
   \<and> \<not> upinf (test_scip [bounds 100 15, bounds 15 20] (\<lambda>v. 1)) 10 (bounds 15 20)
   \<and> score (test_scip [bounds 100 15, bounds 15 20] (\<lambda>v. 1)) 10 1 (bounds 15 20) = 50
   \<and> loop_body (test_scip [bounds 100 15, bounds 15 20] (\<lambda>v. 1)) [0, 1, 2] True 10 1
        best_is_infeasible after_cand0 =
      Continue (best_is_infeasible
          \<lparr>latestscores := [5, 50, - 100000000000000000000],
           validscores := [False, True, False]\<rparr>) after_cand1"
  by (simp add: best_is_infeasible_def example_defs loop_entry_def init_best_def
      empty_score_buffer_def loop_body_def eval_cand_def Let_def)

text \<open>
  C2. For a candidate whose probe succeeds and that has an infeasible side, if the
  best candidate so far has none, the candidate becomes the best, whatever its score,
  and \<^verbatim>\<open>besthasinf\<close> is true afterwards.
\<close>

theorem infeasible_candidate_supersedes_regular_best:
  assumes "SCIPgetVarStrongbranchFracVanilla scip h (lpcands ! c) INT_MAX (fresh_out scip) =
      (SCIP_OKAY, out, h')"
    and "\<not> lperror out"
    and "downinf scip lpobjval out \<or> upinf scip lpobjval out"
    and "\<not> besthasinf st"
  shows "bestcand (step_state (loop_body scip lpcands force lpobjval c st h)) = c
    \<and> besthasinf (step_state (loop_body scip lpcands force lpobjval c st h))
    \<and> bestscore (step_state (loop_body scip lpcands force lpobjval c st h)) =
        score scip lpobjval (lpcands ! c) out"
  using assms(3,4) unfolding step_state_ok [OF assms(1,2)]
  by (auto simp add: eval_cand_def Let_def)

text \<open>The best candidate is regular with score 50; candidate 1 has bounds 100 and 15,
  so its down side is infeasible, and its score is 5. It becomes the best.\<close>

theorem infeasible_candidate_supersedes_regular_best_witness:
  "bestcand best_is_regular = 0 \<and> bestscore best_is_regular = 50 \<and> \<not> besthasinf best_is_regular
   \<and> downinf (test_scip [bounds 15 20, bounds 100 15] (\<lambda>v. 1)) 10 (bounds 100 15)
   \<and> score (test_scip [bounds 15 20, bounds 100 15] (\<lambda>v. 1)) 10 1 (bounds 100 15) = 5
   \<and> bestcand (step_state (loop_body (test_scip [bounds 15 20, bounds 100 15] (\<lambda>v. 1))
        [0, 1, 2] True 10 1 best_is_regular after_cand0)) = 1
   \<and> besthasinf (step_state (loop_body (test_scip [bounds 15 20, bounds 100 15] (\<lambda>v. 1))
        [0, 1, 2] True 10 1 best_is_regular after_cand0))
   \<and> bestscore (step_state (loop_body (test_scip [bounds 15 20, bounds 100 15] (\<lambda>v. 1))
        [0, 1, 2] True 10 1 best_is_regular after_cand0)) = 5"
  using infeasible_candidate_supersedes_regular_best
    [where scip = "test_scip [bounds 15 20, bounds 100 15] (\<lambda>v. 1)" and lpcands = "[0, 1, 2]"
       and c = 1 and h = after_cand0 and out = "bounds 100 15" and h' = after_cand1
       and lpobjval = 10 and st = best_is_regular and force = True]
  by (simp add: best_is_regular_def example_defs)

text \<open>
  C7. For a candidate \<open>c\<close> whose probe succeeds, the score written to
  \<^verbatim>\<open>latestscores[c]\<close> is: infinity when both sides are infeasible; the up gain times
  the branching factor of the variable when only the down side is; the down gain
  times the branching factor when only the up side is; the host's branching score of
  the two gains when neither is. \<^verbatim>\<open>validscores[c]\<close> is set to true in the last case
  and is not written in the others.
\<close>

theorem score_case_split:
  assumes "SCIPgetVarStrongbranchFracVanilla scip h (lpcands ! c) INT_MAX (fresh_out scip) =
      (SCIP_OKAY, out, h')"
    and "\<not> lperror out"
    and "c < length (latestscores st)"
    and "c < length (validscores st)"
  shows "latestscores (step_state (loop_body scip lpcands force lpobjval c st h)) ! c =
      (if downinf scip lpobjval out \<and> upinf scip lpobjval out then SCIPinfinity scip
       else if downinf scip lpobjval out
         then upgain lpobjval out * SCIPvarGetBranchFactor scip (lpcands ! c)
       else if upinf scip lpobjval out
         then downgain lpobjval out * SCIPvarGetBranchFactor scip (lpcands ! c)
       else SCIPgetBranchScore scip (lpcands ! c) (downgain lpobjval out) (upgain lpobjval out))
    \<and> validscores (step_state (loop_body scip lpcands force lpobjval c st h)) ! c =
      (if \<not> downinf scip lpobjval out \<and> \<not> upinf scip lpobjval out then True
       else validscores st ! c)"
  using assms(3,4) unfolding step_state_ok [OF assms(1,2)]
  by (auto simp add: eval_cand_def Let_def score_def)

text \<open>Candidate 1 with bounds 13 and 16 is regular: its score is the product 3 times 6
  of its gains, and its entry of \<^verbatim>\<open>validscores\<close> becomes true.\<close>

theorem score_case_split_witness:
  "latestscores (step_state (loop_body (test_scip [bounds 15 20, bounds 13 16] (\<lambda>v. 1))
        [0, 1, 2] True 10 1 best_is_regular after_cand0)) ! 1 = 18
   \<and> validscores (step_state (loop_body (test_scip [bounds 15 20, bounds 13 16] (\<lambda>v. 1))
        [0, 1, 2] True 10 1 best_is_regular after_cand0)) ! 1"
  using score_case_split
    [where scip = "test_scip [bounds 15 20, bounds 13 16] (\<lambda>v. 1)" and lpcands = "[0, 1, 2]"
       and c = 1 and h = after_cand0 and out = "bounds 13 16" and h' = after_cand1
       and lpobjval = 10 and st = best_is_regular and force = True]
  by (simp add: best_is_regular_def example_defs)

subsection \<open>The loop\<close>

lemma eval_cand_lengths:
  "length (latestscores (fst (eval_cand scip force lpobjval var c out st))) = length (latestscores st)
   \<and> length (validscores (fst (eval_cand scip force lpobjval var c out st))) = length (validscores st)"
  by (simp add: eval_cand_def Let_def)

lemma eval_cand_other:
  "j \<noteq> c \<Longrightarrow>
   latestscores (fst (eval_cand scip force lpobjval var c out st)) ! j = latestscores st ! j
   \<and> validscores (fst (eval_cand scip force lpobjval var c out st)) ! j = validscores st ! j"
  by (simp add: eval_cand_def Let_def)

lemma probe_ok_cases:
  assumes "SCIPgetVarStrongbranchFracVanilla scip h var itlim out0 = (SCIP_OKAY, out, h')"
    and "\<not> lperror out"
  shows "out = SCIPcolGetStrongbranch scip var itlim \<and> h' = h @ [CheckStage, ColGetStrongbranch var itlim]"
  using assms
  by (auto simp add: SCIPgetVarStrongbranchFracVanilla_def SCIP_CALL_def Let_def split: if_splits)

lemma loop_body_Continue:
  assumes "loop_body scip lpcands force lpobjval c st h = Continue st1 h1"
  shows "st1 = fst (eval_cand scip force lpobjval (lpcands ! c) c (cand_out scip lpcands c) st)
    \<and> \<not> snd (eval_cand scip force lpobjval (lpcands ! c) c (cand_out scip lpcands c) st)
    \<and> \<not> lperror (cand_out scip lpcands c)
    \<and> h1 = h @ [CheckStage, ColGetStrongbranch (lpcands ! c) INT_MAX]"
proof -
  obtain rc out h' where p: "SCIPgetVarStrongbranchFracVanilla scip h (lpcands ! c) INT_MAX (fresh_out scip) = (rc, out, h')"
    by (metis prod_cases3)
  from assms p have rc: "rc = SCIP_OKAY" and le: "\<not> lperror out"
    by (auto simp add: loop_body_def split: if_splits prod.splits)
  from probe_ok_cases[OF p[unfolded rc] le] have o: "out = cand_out scip lpcands c"
    and h': "h' = h @ [CheckStage, ColGetStrongbranch (lpcands ! c) INT_MAX]"
    by (simp_all add: cand_out_def)
  from le o have le': "\<not> lperror (cand_out scip lpcands c)" by simp
  from assms le' show ?thesis
    unfolding loop_body_ok[OF p[unfolded rc] le] o h'
    by (auto split: if_splits)
qed

lemma reach_loop:
  "reach scip lpcands force lpobjval n c st h = Some (st', h') \<Longrightarrow>
   select_loop scip lpcands force lpobjval c st h = select_loop scip lpcands force lpobjval (c + n) st' h'"
proof (induction n arbitrary: c st h)
  case 0
  then show ?case by simp
next
  case (Suc n)
  from Suc.prems have c: "c < length lpcands" by (simp split: if_splits)
  from Suc.prems c obtain st1 h1 where b: "loop_body scip lpcands force lpobjval c st h = Continue st1 h1"
    and r: "reach scip lpcands force lpobjval n (c + 1) st1 h1 = Some (st', h')"
    by (auto split: loop_step.splits)
  have "select_loop scip lpcands force lpobjval c st h = select_loop scip lpcands force lpobjval (c + 1) st1 h1"
    using c b by (subst select_loop.simps) simp
  with Suc.IH[OF r] show ?case by simp
qed

lemma reach_untouched:
  "reach scip lpcands force lpobjval n c st h = Some (st', h') \<Longrightarrow>
   length (latestscores st') = length (latestscores st)
   \<and> length (validscores st') = length (validscores st)
   \<and> (\<forall>j. c + n \<le> j \<longrightarrow> latestscores st' ! j = latestscores st ! j
                         \<and> validscores st' ! j = validscores st ! j)"
proof (induction n arbitrary: c st h)
  case 0
  then show ?case by simp
next
  case (Suc n)
  from Suc.prems have c: "c < length lpcands" by (simp split: if_splits)
  from Suc.prems c obtain st1 h1 where b: "loop_body scip lpcands force lpobjval c st h = Continue st1 h1"
    and r: "reach scip lpcands force lpobjval n (c + 1) st1 h1 = Some (st', h')"
    by (auto split: loop_step.splits)
  from loop_body_Continue[OF b]
  have st1: "st1 = fst (eval_cand scip force lpobjval (lpcands ! c) c (cand_out scip lpcands c) st)"
    by simp
  from Suc.IH[OF r] show ?case
    unfolding st1 by (simp add: eval_cand_lengths eval_cand_other)
qed

lemma fold_update_length:
  "length (fold (\<lambda>c l. l[c := x]) [0..<n] l) = length l"
  by (induction n) auto

lemma fold_update_nth:
  "j < length l \<Longrightarrow> j < n \<Longrightarrow> fold (\<lambda>c l. l[c := x]) [0..<n] l ! j = x"
  by (induction n) (auto simp add: nth_list_update fold_update_length less_Suc_eq)

lemma empty_score_buffer_eq:
  "empty_score_buffer scip n st =
    st\<lparr>latestscores := fold (\<lambda>c l. l[c := - SCIPinfinity scip]) [0..<n] (latestscores st),
       validscores := fold (\<lambda>c l. l[c := False]) [0..<n] (validscores st)\<rparr>"
  by (induction n) (auto simp add: empty_score_buffer_def)

lemma loop_entry_fields:
  "bestcand (loop_entry scip h lpcands ls vs) = 0"
  "bestscore (loop_entry scip h lpcands ls vs) = - SCIPinfinity scip"
  "\<not> besthasinf (loop_entry scip h lpcands ls vs)"
  "length (latestscores (loop_entry scip h lpcands ls vs)) = length ls"
  "length (validscores (loop_entry scip h lpcands ls vs)) = length vs"
  by (simp_all add: loop_entry_def empty_score_buffer_eq init_best_def fold_update_length)

lemma loop_entry_buffers:
  "j < length lpcands \<Longrightarrow> j < length ls \<Longrightarrow> latestscores (loop_entry scip h lpcands ls vs) ! j = - SCIPinfinity scip"
  "j < length lpcands \<Longrightarrow> j < length vs \<Longrightarrow> validscores (loop_entry scip h lpcands ls vs) ! j = False"
  by (simp_all add: loop_entry_def empty_score_buffer_eq init_best_def fold_update_nth)

lemma select_enters:
  assumes "enters_loop scip h lpcands force"
  shows "SCIPselectVarStrongBranchingVanilla scip h lpcands lpcandssol lpcandsfrac npriolpcands force ls vs result =
    (case select_loop scip lpcands force (SCIPgetLPObjval scip h) 0
            (loop_entry scip h lpcands ls vs) (h @ [StartStrongbranch False]) of
       (rc, st, h2) \<Rightarrow>
         if rc \<noteq> SCIP_OKAY then (rc, st, result, h2)
         else (SCIPretcode scip h2 EndStrongbranch, st, result, h2 @ [EndStrongbranch]))"
proof -
  from assms have a: "((\<not> force \<and> length lpcands = 1) \<or> SCIPisStopped scip h) = False"
    and b: "SCIPretcode scip h (StartStrongbranch False) = SCIP_OKAY"
    by (auto simp add: enters_loop_def)
  show ?thesis
    unfolding SCIPselectVarStrongBranchingVanilla_def Let_def a SCIP_CALL_def
    by (simp add: b loop_entry_def split: prod.splits)
qed


lemma loop_body_lperror:
  assumes "SCIPgetVarStrongbranchFracVanilla scip h (lpcands ! c) INT_MAX (fresh_out scip) =
      (SCIP_OKAY, out, h')"
    and "lperror out"
  shows "loop_body scip lpcands force lpobjval c st h = Break st h'"
  using assms by (simp add: loop_body_def)

lemma select_loop_Break:
  assumes "c < length lpcands"
    and "loop_body scip lpcands force lpobjval c st h = Break st1 h1"
  shows "select_loop scip lpcands force lpobjval c st h = (SCIP_OKAY, st1, h1)"
  using assms by (subst select_loop.simps) simp

text \<open>
  C8. If the loop gets to candidate \<open>k\<close> and the probe of candidate \<open>k\<close> reports
  \<^verbatim>\<open>lperror\<close>, the selection returns the state it had at the head of iteration \<open>k\<close>:
  the best candidate recorded before \<open>k\<close> is kept, and it is candidate 0 when \<open>k\<close> is
  0. The entries of \<^verbatim>\<open>latestscores\<close> from \<open>k\<close> on still hold minus infinity. The
  only call the selection makes after the probe of candidate \<open>k\<close> is
  \<^verbatim>\<open>SCIPendStrongbranch\<close>: no later candidate is probed, and strong-branching mode is
  left.
\<close>

theorem lperror_exits_loop:
  assumes "enters_loop scip h lpcands force"
    and "length ls = length lpcands"
    and "k < length lpcands"
    and "reach scip lpcands force (SCIPgetLPObjval scip h) k 0 (loop_entry scip h lpcands ls vs)
           (h @ [StartStrongbranch False]) = Some (stk, hk)"
    and "SCIPgetVarStrongbranchFracVanilla scip hk (lpcands ! k) INT_MAX (fresh_out scip) =
           (SCIP_OKAY, out, hk')"
    and "lperror out"
  shows "SCIPselectVarStrongBranchingVanilla scip h lpcands lpcandssol lpcandsfrac npriolpcands
           force ls vs result =
      (SCIPretcode scip hk' EndStrongbranch, stk, result, hk' @ [EndStrongbranch])
    \<and> (\<forall>c. k \<le> c \<and> c < length lpcands \<longrightarrow> latestscores stk ! c = - SCIPinfinity scip)
    \<and> (k = 0 \<longrightarrow> bestcand stk = 0)"
proof -
  have loop: "select_loop scip lpcands force (SCIPgetLPObjval scip h) 0
      (loop_entry scip h lpcands ls vs) (h @ [StartStrongbranch False]) = (SCIP_OKAY, stk, hk')"
    using reach_loop [OF assms(4)] select_loop_Break [OF assms(3) loop_body_lperror [OF assms(5,6)]]
    by simp
  have run: "SCIPselectVarStrongBranchingVanilla scip h lpcands lpcandssol lpcandsfrac npriolpcands
           force ls vs result =
      (SCIPretcode scip hk' EndStrongbranch, stk, result, hk' @ [EndStrongbranch])"
    unfolding select_enters [OF assms(1)] loop by simp
  have rest: "\<forall>c. k \<le> c \<and> c < length lpcands \<longrightarrow> latestscores stk ! c = - SCIPinfinity scip"
    using reach_untouched [OF assms(4)] assms(2) by (simp add: loop_entry_buffers)
  have first: "k = 0 \<longrightarrow> bestcand stk = 0"
    using assms(4) by (auto simp add: loop_entry_fields)
  from run rest first show ?thesis by simp
qed


text \<open>Candidate 0 is regular with score 2 and the LP fails on candidate 1: candidate 2
  is not probed.\<close>

theorem lperror_exits_loop_witness:
  "SCIPselectVarStrongBranchingVanilla (test_scip [bounds 11 12, lp_failed, bounds 13 14] (\<lambda>v. 1)) []
     [0, 1, 2] [1 / 2, 3 / 2, 5 / 2] [1 / 2, 1 / 2, 1 / 2] 3 True [0, 0, 0] [False, False, False]
     SCIP_DIDNOTRUN =
    (SCIP_OKAY, scored_cand0, SCIP_DIDNOTRUN, after_cand1 @ [EndStrongbranch])
   \<and> bestcand scored_cand0 = 0
   \<and> latestscores scored_cand0 ! 1 = - SCIPinfinity (test_scip [bounds 11 12, lp_failed, bounds 13 14] (\<lambda>v. 1))
   \<and> latestscores scored_cand0 ! 2 = - SCIPinfinity (test_scip [bounds 11 12, lp_failed, bounds 13 14] (\<lambda>v. 1))"
  using lperror_exits_loop
    [where scip = "test_scip [bounds 11 12, lp_failed, bounds 13 14] (\<lambda>v. 1)" and h = "[]"
       and lpcands = "[0, 1, 2]" and force = True and ls = "[0, 0, 0]" and vs = "[False, False, False]"
       and k = 1 and stk = scored_cand0 and hk = after_cand0 and out = lp_failed and hk' = after_cand1
       and lpcandssol = "[1 / 2, 3 / 2, 5 / 2]" and lpcandsfrac = "[1 / 2, 1 / 2, 1 / 2]"
       and npriolpcands = 3 and result = SCIP_DIDNOTRUN]
  by (simp add: scored_cand0_def lp_failed_def example_defs enters_loop_def loop_entry_def
      init_best_def empty_score_buffer_def loop_body_def eval_cand_def Let_def)

lemmas run_defs =
  example_defs enters_loop_def loop_entry_def init_best_def empty_score_buffer_def
  loop_body_def eval_cand_def Let_def SCIPselectVarStrongBranchingVanilla_def

text \<open>
  Where the code ends the loop at a candidate that proves the node infeasible. The
  \<^verbatim>\<open>break\<close> of line 345 stands inside the update of the best candidate. With
  \<^verbatim>\<open>forcestrongbranch\<close> false, if the loop gets to candidate \<open>c\<close>, its probe succeeds
  and reports both sides infeasible, and the best candidate so far has no infeasible
  side or a score strictly below infinity, then the update is made and the loop ends
  there: the selection returns with candidate \<open>c\<close> as the best, infinity as its score
  and \<^verbatim>\<open>validscores[c]\<close> false, and the only call after the probe of candidate \<open>c\<close>
  is \<^verbatim>\<open>SCIPendStrongbranch\<close>.
\<close>

lemma both_infeasible_ends_loop:
  assumes "enters_loop scip h lpcands False"
    and "length vs = length lpcands"
    and "c < length lpcands"
    and "reach scip lpcands False (SCIPgetLPObjval scip h) c 0 (loop_entry scip h lpcands ls vs)
           (h @ [StartStrongbranch False]) = Some (stc, hc)"
    and "SCIPgetVarStrongbranchFracVanilla scip hc (lpcands ! c) INT_MAX (fresh_out scip) =
           (SCIP_OKAY, out, hc')"
    and "\<not> lperror out"
    and "downinf scip (SCIPgetLPObjval scip h) out \<and> upinf scip (SCIPgetLPObjval scip h) out"
    and "\<not> besthasinf stc \<or> bestscore stc < SCIPinfinity scip"
  shows "(let st' = fst (eval_cand scip False (SCIPgetLPObjval scip h) (lpcands ! c) c out stc) in
      SCIPselectVarStrongBranchingVanilla scip h lpcands lpcandssol lpcandsfrac npriolpcands
           False ls vs result =
        (SCIPretcode scip hc' EndStrongbranch, st', result, hc' @ [EndStrongbranch])
      \<and> bestcand st' = c
      \<and> bestscore st' = SCIPinfinity scip
      \<and> \<not> validscores st' ! c)"
proof -
  let ?lp = "SCIPgetLPObjval scip h"
  let ?ev = "eval_cand scip False ?lp (lpcands ! c) c out stc"
  have sc: "score scip ?lp (lpcands ! c) out = SCIPinfinity scip"
    using assms(7) by (simp add: score_def)
  have upd: "snd ?ev" "bestcand (fst ?ev) = c" "bestscore (fst ?ev) = SCIPinfinity scip"
    "validscores (fst ?ev) = validscores stc"
    using assms(7,8) by (auto simp add: eval_cand_def Let_def sc)
  have body: "loop_body scip lpcands False ?lp c stc hc = Break (fst ?ev) hc'"
    using loop_body_ok [OF assms(5,6)] upd(1) by simp
  have loop: "select_loop scip lpcands False ?lp 0
      (loop_entry scip h lpcands ls vs) (h @ [StartStrongbranch False]) = (SCIP_OKAY, fst ?ev, hc')"
    using reach_loop [OF assms(4)] select_loop_Break [OF assms(3) body] by simp
  have run: "SCIPselectVarStrongBranchingVanilla scip h lpcands lpcandssol lpcandsfrac npriolpcands
           False ls vs result =
      (SCIPretcode scip hc' EndStrongbranch, fst ?ev, result, hc' @ [EndStrongbranch])"
    unfolding select_enters [OF assms(1)] loop by simp
  have "validscores stc ! c = False"
    using reach_untouched [OF assms(4)] assms(2,3) by (simp add: loop_entry_buffers)
  with upd(4) have v: "\<not> validscores (fst ?ev) ! c" by simp
  from run upd(2,3) v show ?thesis by (simp add: Let_def)
qed

text \<open>Candidate 0 has bounds 100 and 15, so one infeasible side, and score 5; candidate
  1 has bounds 101 and 102, both at least the cutoff bound 100: the loop ends at
  candidate 1 and candidate 2 is not probed.\<close>

lemma both_infeasible_ends_loop_example:
  "besthasinf best_is_infeasible \<and> bestscore best_is_infeasible = 5
   \<and> SCIPselectVarStrongBranchingVanilla (test_scip [bounds 100 15, bounds 101 102, bounds 13 14] (\<lambda>v. 1)) []
     [0, 1, 2] [1 / 2, 3 / 2, 5 / 2] [1 / 2, 1 / 2, 1 / 2] 3 False [0, 0, 0] [False, False, False]
     SCIP_DIDNOTRUN =
    (SCIP_OKAY, infeasible_after_one_sided, SCIP_DIDNOTRUN, after_cand1 @ [EndStrongbranch])
   \<and> bestcand infeasible_after_one_sided = 1
   \<and> bestscore infeasible_after_one_sided
       = SCIPinfinity (test_scip [bounds 100 15, bounds 101 102, bounds 13 14] (\<lambda>v. 1))
   \<and> \<not> validscores infeasible_after_one_sided ! 1"
  using both_infeasible_ends_loop
    [where scip = "test_scip [bounds 100 15, bounds 101 102, bounds 13 14] (\<lambda>v. 1)" and h = "[]"
       and lpcands = "[0, 1, 2]" and ls = "[0, 0, 0]" and vs = "[False, False, False]"
       and c = 1 and stc = best_is_infeasible and hc = after_cand0 and out = "bounds 101 102"
       and hc' = after_cand1
       and lpcandssol = "[1 / 2, 3 / 2, 5 / 2]" and lpcandsfrac = "[1 / 2, 1 / 2, 1 / 2]"
       and npriolpcands = 3 and result = SCIP_DIDNOTRUN]
  by (simp add: best_is_infeasible_def infeasible_after_one_sided_def example_defs enters_loop_def
      loop_entry_def init_best_def empty_score_buffer_def loop_body_def eval_cand_def Let_def)

text \<open>
  C3. With \<^verbatim>\<open>forcestrongbranch\<close> false, a candidate whose probe reports both sides
  infeasible should end the loop and be the best candidate, with infinity as its
  score; the header of the rule says that the branching variable is, if any, the
  first variable that proves node infeasibility. The code does not do so on the
  following input. Candidate 0 has bounds 100 and 11 and a branching factor as large
  as infinity: its down side is infeasible and its score, the up gain 1 times the
  factor, is infinity. Candidate 1 has bounds 101 and 102 and is infeasible on both
  sides, but its score, infinity, is not strictly higher than the best score, so the
  test of line 329 fails: the best candidate stays candidate 0, the \<^verbatim>\<open>break\<close> of
  line 345 is not reached, and candidate 2 is probed.
\<close>

theorem both_infeasible_after_infinite_score_goes_on:
  "downinf (test_scip [bounds 100 11, bounds 101 102, bounds 13 14] (huge_factor 0)) 10 (bounds 101 102)
   \<and> upinf (test_scip [bounds 100 11, bounds 101 102, bounds 13 14] (huge_factor 0)) 10 (bounds 101 102)
   \<and> SCIPselectVarStrongBranchingVanilla
        (test_scip [bounds 100 11, bounds 101 102, bounds 13 14] (huge_factor 0)) []
        [0, 1, 2] [1 / 2, 3 / 2, 5 / 2] [1 / 2, 1 / 2, 1 / 2] 3 False [0, 0, 0] [False, False, False]
        SCIP_DIDNOTRUN =
      (SCIP_OKAY,
       \<lparr>bestcand = 0, bestdown = 100, bestup = 11, bestscore = 100000000000000000000,
        bestdownvalid = True, bestupvalid = True, provedbound = 10,
        latestscores = [100000000000000000000, 100000000000000000000, 12],
        validscores = [False, False, True],
        besthasinf = True\<rparr>,
       SCIP_DIDNOTRUN, all_probed @ [EndStrongbranch])"
  by (simp add: run_defs huge_factor_def all_probed_def select_loop.simps)

lemma reach_invariant:
  assumes "reach scip lpcands force lpobjval n c st h = Some (st', h')"
    and "I c st"
    and step: "\<And>j s. c \<le> j \<Longrightarrow> j < c + n \<Longrightarrow> I j s \<Longrightarrow>
      I (Suc j) (fst (eval_cand scip force lpobjval (lpcands ! j) j (cand_out scip lpcands j) s))"
  shows "I (c + n) st'"
  using assms
proof (induction n arbitrary: c st h)
  case 0
  then show ?case by simp
next
  case (Suc n)
  from Suc.prems(1) have c: "c < length lpcands" by (simp split: if_splits)
  from Suc.prems(1) c obtain st1 h1 where b: "loop_body scip lpcands force lpobjval c st h = Continue st1 h1"
    and r: "reach scip lpcands force lpobjval n (c + 1) st1 h1 = Some (st', h')"
    by (auto split: loop_step.splits)
  from loop_body_Continue [OF b]
  have st1: "st1 = fst (eval_cand scip force lpobjval (lpcands ! c) c (cand_out scip lpcands c) st)"
    by simp
  have i1: "I (c + 1) st1"
    unfolding st1 using Suc.prems(3) [of c st] Suc.prems(2) by simp
  have "I (c + 1 + n) st'"
  proof (rule Suc.IH [OF r i1])
    fix j s
    assume "c + 1 \<le> j" "j < c + 1 + n" "I j s"
    then show "I (Suc j) (fst (eval_cand scip force lpobjval (lpcands ! j) j (cand_out scip lpcands j) s))"
      using Suc.prems(3) [of j s] by simp
  qed
  then show ?case by simp
qed

lemma eval_cand_before_first:
  assumes "\<not> both_inf scip lpobjval lpcands j"
    and "one_inf scip lpobjval lpcands j \<longrightarrow> cand_score scip lpobjval lpcands j < SCIPinfinity scip"
    and "besthasinf s \<longrightarrow> bestscore s < SCIPinfinity scip"
  shows "besthasinf (fst (eval_cand scip force lpobjval (lpcands ! j) j (cand_out scip lpcands j) s))
    \<longrightarrow> bestscore (fst (eval_cand scip force lpobjval (lpcands ! j) j (cand_out scip lpcands j) s))
          < SCIPinfinity scip"
  using assms
  by (auto simp add: eval_cand_def Let_def both_inf_def one_inf_def cand_score_def)

lemma eval_cand_at_first:
  assumes "both_inf scip lpobjval lpcands j"
    and "besthasinf s \<longrightarrow> bestscore s < SCIPinfinity scip"
  shows "bestcand (fst (eval_cand scip force lpobjval (lpcands ! j) j (cand_out scip lpcands j) s)) = j
    \<and> bestscore (fst (eval_cand scip force lpobjval (lpcands ! j) j (cand_out scip lpcands j) s))
          = SCIPinfinity scip
    \<and> besthasinf (fst (eval_cand scip force lpobjval (lpcands ! j) j (cand_out scip lpcands j) s))"
  using assms
  by (auto simp add: eval_cand_def Let_def both_inf_def score_def)

lemma eval_cand_after_first:
  assumes "one_inf scip lpobjval lpcands j \<longrightarrow> cand_score scip lpobjval lpcands j \<le> SCIPinfinity scip"
    and "bestcand s = k \<and> bestscore s = SCIPinfinity scip \<and> besthasinf s"
  shows "bestcand (fst (eval_cand scip force lpobjval (lpcands ! j) j (cand_out scip lpcands j) s)) = k
    \<and> bestscore (fst (eval_cand scip force lpobjval (lpcands ! j) j (cand_out scip lpcands j) s))
          = SCIPinfinity scip
    \<and> besthasinf (fst (eval_cand scip force lpobjval (lpcands ! j) j (cand_out scip lpcands j) s))"
proof (cases "both_inf scip lpobjval lpcands j")
  case True
  then have "score scip lpobjval (lpcands ! j) (cand_out scip lpcands j) = SCIPinfinity scip"
    by (simp add: both_inf_def score_def)
  with assms(2) show ?thesis
    by (simp add: eval_cand_def Let_def)
next
  case False
  show ?thesis
  proof (cases "one_inf scip lpobjval lpcands j")
    case True
    with assms(1) have "score scip lpobjval (lpcands ! j) (cand_out scip lpcands j) \<le> SCIPinfinity scip"
      by (simp add: cand_score_def)
    with assms(2) show ?thesis
      by (simp add: eval_cand_def Let_def)
  next
    case False
    with \<open>\<not> both_inf scip lpobjval lpcands j\<close>
    have "\<not> downinf scip lpobjval (cand_out scip lpcands j)" "\<not> upinf scip lpobjval (cand_out scip lpcands j)"
      by (auto simp add: both_inf_def one_inf_def)
    with assms(2) show ?thesis
      by (simp add: eval_cand_def Let_def)
  qed
qed

text \<open>
  Where the code returns the first candidate that proves the node infeasible. With
  \<^verbatim>\<open>forcestrongbranch\<close> true, let the loop go through all candidates, let \<open>k\<close> be the
  first candidate that is infeasible on both sides, and let every candidate with
  exactly one infeasible side score at most infinity, and strictly less when it comes
  before \<open>k\<close>. Then the selection returns candidate \<open>k\<close> as the best, with score
  infinity: a later candidate that is infeasible on both sides scores infinity too,
  which is not strictly higher.
\<close>

lemma first_both_infeasible_is_best:
  assumes "enters_loop scip h lpcands True"
    and "reach scip lpcands True (SCIPgetLPObjval scip h) (length lpcands) 0
           (loop_entry scip h lpcands ls vs) (h @ [StartStrongbranch False]) = Some (stn, hn)"
    and "k < length lpcands"
    and "both_inf scip (SCIPgetLPObjval scip h) lpcands k"
    and "\<forall>j<k. \<not> both_inf scip (SCIPgetLPObjval scip h) lpcands j"
    and "\<forall>j<length lpcands. one_inf scip (SCIPgetLPObjval scip h) lpcands j \<longrightarrow>
           cand_score scip (SCIPgetLPObjval scip h) lpcands j \<le> SCIPinfinity scip
           \<and> (j < k \<longrightarrow> cand_score scip (SCIPgetLPObjval scip h) lpcands j < SCIPinfinity scip)"
  shows "SCIPselectVarStrongBranchingVanilla scip h lpcands lpcandssol lpcandsfrac npriolpcands
           True ls vs result =
      (SCIPretcode scip hn EndStrongbranch, stn, result, hn @ [EndStrongbranch])
    \<and> bestcand stn = k
    \<and> bestscore stn = SCIPinfinity scip"
proof -
  let ?lp = "SCIPgetLPObjval scip h"
  let ?I = "\<lambda>j (s::sel_state). (j \<le> k \<longrightarrow> (besthasinf s \<longrightarrow> bestscore s < SCIPinfinity scip))
      \<and> (k < j \<longrightarrow> bestcand s = k \<and> bestscore s = SCIPinfinity scip \<and> besthasinf s)"
  have "?I (0 + length lpcands) stn"
  proof (rule reach_invariant [OF assms(2), where I = ?I])
    show "?I 0 (loop_entry scip h lpcands ls vs)"
      by (simp add: loop_entry_fields)
  next
    fix j and s :: sel_state
    assume j: "0 \<le> j" "j < 0 + length lpcands" and I: "?I j s"
    let ?s' = "fst (eval_cand scip True ?lp (lpcands ! j) j (cand_out scip lpcands j) s)"
    consider "j < k" | "j = k" | "k < j" by linarith
    then show "?I (Suc j) ?s'"
    proof cases
      case 1
      with assms(5,6) j have "\<not> both_inf scip ?lp lpcands j"
        and "one_inf scip ?lp lpcands j \<longrightarrow> cand_score scip ?lp lpcands j < SCIPinfinity scip"
        by auto
      from eval_cand_before_first [OF this] I 1 show ?thesis by simp
    next
      case 2
      with eval_cand_at_first [OF assms(4)] I show ?thesis by simp
    next
      case 3
      with assms(6) j have "one_inf scip ?lp lpcands j \<longrightarrow> cand_score scip ?lp lpcands j \<le> SCIPinfinity scip"
        by auto
      from eval_cand_after_first [OF this] I 3 show ?thesis by simp
    qed
  qed
  with assms(3) have best: "bestcand stn = k \<and> bestscore stn = SCIPinfinity scip" by simp
  have loop: "select_loop scip lpcands True ?lp 0
      (loop_entry scip h lpcands ls vs) (h @ [StartStrongbranch False]) = (SCIP_OKAY, stn, hn)"
    using reach_loop [OF assms(2)] by (simp add: select_loop.simps [of _ _ _ _ "length lpcands"])
  have run: "SCIPselectVarStrongBranchingVanilla scip h lpcands lpcandssol lpcandsfrac npriolpcands
           True ls vs result =
      (SCIPretcode scip hn EndStrongbranch, stn, result, hn @ [EndStrongbranch])"
    unfolding select_enters [OF assms(1)] loop by simp
  from run best show ?thesis by simp
qed


text \<open>Candidates 0 and 2 have one infeasible side and scores 5 and 15; candidates 1
  and 3 are infeasible on both sides. The best is candidate 1.\<close>

lemma first_both_infeasible_is_best_example:
  "one_inf (test_scip [bounds 100 15, bounds 101 102, bounds 100 25, bounds 102 103] (\<lambda>v. 1)) 10
      [0, 1, 2, 3] 0
   \<and> both_inf (test_scip [bounds 100 15, bounds 101 102, bounds 100 25, bounds 102 103] (\<lambda>v. 1)) 10
      [0, 1, 2, 3] 1
   \<and> one_inf (test_scip [bounds 100 15, bounds 101 102, bounds 100 25, bounds 102 103] (\<lambda>v. 1)) 10
      [0, 1, 2, 3] 2
   \<and> both_inf (test_scip [bounds 100 15, bounds 101 102, bounds 100 25, bounds 102 103] (\<lambda>v. 1)) 10
      [0, 1, 2, 3] 3
   \<and> SCIPselectVarStrongBranchingVanilla
        (test_scip [bounds 100 15, bounds 101 102, bounds 100 25, bounds 102 103] (\<lambda>v. 1)) []
        [0, 1, 2, 3] [1 / 2, 3 / 2, 5 / 2, 7 / 2] [1 / 2, 1 / 2, 1 / 2, 1 / 2] 4 True
        [0, 0, 0, 0] [False, False, False, False] SCIP_DIDNOTRUN =
      (SCIP_OKAY, first_infeasible_of_four, SCIP_DIDNOTRUN, four_probed @ [EndStrongbranch])
   \<and> bestcand first_infeasible_of_four = 1"
proof -
  let ?scip = "test_scip [bounds 100 15, bounds 101 102, bounds 100 25, bounds 102 103] (\<lambda>v. 1)"
  have a: "enters_loop ?scip [] [0, 1, 2, 3] True"
    by (simp add: run_defs)
  have b: "reach ?scip [0, 1, 2, 3] True (SCIPgetLPObjval ?scip []) (length [0, 1, 2, 3 :: nat]) 0
      (loop_entry ?scip [] [0, 1, 2, 3] [0, 0, 0, 0] [False, False, False, False])
      ([] @ [StartStrongbranch False])
      = Some (first_infeasible_of_four, four_probed)"
    by (simp add: run_defs first_infeasible_of_four_def four_probed_def all_probed_def
        eval_nat_numeral)
  have c: "(1::nat) < length [0, 1, 2, 3 :: nat]" by simp
  have d: "both_inf ?scip (SCIPgetLPObjval ?scip []) [0, 1, 2, 3] 1"
    by (simp add: run_defs both_inf_def cand_out_def)
  have cl: "one_inf ?scip 10 [0, 1, 2, 3] 0" "one_inf ?scip 10 [0, 1, 2, 3] 2"
    "both_inf ?scip 10 [0, 1, 2, 3] 3"
    by (simp_all add: run_defs both_inf_def one_inf_def cand_out_def)
  have e: "\<forall>j<1. \<not> both_inf ?scip (SCIPgetLPObjval ?scip []) [0, 1, 2, 3] j"
    by (simp add: run_defs both_inf_def cand_out_def)
  have f: "\<forall>j<length [0, 1, 2, 3 :: nat]. one_inf ?scip (SCIPgetLPObjval ?scip []) [0, 1, 2, 3] j \<longrightarrow>
      cand_score ?scip (SCIPgetLPObjval ?scip []) [0, 1, 2, 3] j \<le> SCIPinfinity ?scip
      \<and> (j < 1 \<longrightarrow> cand_score ?scip (SCIPgetLPObjval ?scip []) [0, 1, 2, 3] j < SCIPinfinity ?scip)"
    by (auto simp add: run_defs one_inf_def cand_out_def cand_score_def less_Suc_eq eval_nat_numeral)
  from first_both_infeasible_is_best [OF a b c d e f] d cl show ?thesis
    by (simp add: test_scip_def)
qed

text \<open>
  C10. With \<^verbatim>\<open>forcestrongbranch\<close> true and several candidates infeasible on both
  sides, the best candidate on completion should be the first of them; the header of
  the rule says that the branching variable is, if any, the first variable that
  proves node infeasibility. The code does not do so on the following input.
  Candidates 0 and 2 are infeasible on both sides. Candidate 1 has bounds 100 and 12
  and a branching factor as large as infinity: only its down side is infeasible, and
  its score, the up gain 2 times the factor, is strictly higher than infinity. It
  passes the test of line 329, displaces candidate 0 and is the best on completion.
\<close>

theorem later_infinite_score_displaces_both_infeasible:
  "both_inf (test_scip [bounds 101 102, bounds 100 12, bounds 102 103] (huge_factor 1)) 10 [0, 1, 2] 0
   \<and> \<not> both_inf (test_scip [bounds 101 102, bounds 100 12, bounds 102 103] (huge_factor 1)) 10 [0, 1, 2] 1
   \<and> both_inf (test_scip [bounds 101 102, bounds 100 12, bounds 102 103] (huge_factor 1)) 10 [0, 1, 2] 2
   \<and> SCIPselectVarStrongBranchingVanilla
        (test_scip [bounds 101 102, bounds 100 12, bounds 102 103] (huge_factor 1)) []
        [0, 1, 2] [1 / 2, 3 / 2, 5 / 2] [1 / 2, 1 / 2, 1 / 2] 3 True [0, 0, 0] [False, False, False]
        SCIP_DIDNOTRUN =
      (SCIP_OKAY,
       \<lparr>bestcand = 1, bestdown = 100, bestup = 12, bestscore = 200000000000000000000,
        bestdownvalid = True, bestupvalid = True, provedbound = 10,
        latestscores = [100000000000000000000, 200000000000000000000, 100000000000000000000],
        validscores = [False, False, False],
        besthasinf = True\<rparr>,
       SCIP_DIDNOTRUN, all_probed @ [EndStrongbranch])"
  by (simp add: run_defs both_inf_def cand_out_def huge_factor_def all_probed_def select_loop.simps)

subsection \<open>The execute callback and the rule data\<close>

lemma select_result_unchanged:
  "fst (snd (snd (SCIPselectVarStrongBranchingVanilla scip h lpcands lpcandssol lpcandsfrac
      npriolpcands force ls vs result))) = result"
  by (simp add: SCIPselectVarStrongBranchingVanilla_def Let_def split: prod.splits)





lemma select_result_eq:
  "SCIPselectVarStrongBranchingVanilla scip h lpcands lpcandssol lpcandsfrac
      npriolpcands force ls vs result = (rc, st, res, h') \<Longrightarrow> res = result"
  using select_result_unchanged [of scip h lpcands lpcandssol lpcandsfrac npriolpcands force ls vs result]
  by simp

lemma exec_after_alloc:
  assumes "n = length (cands_vars (SCIPgetLPBranchCands scip h))"
    and "cands_copied scip h n" and "first_alloc_ok scip h n" and "second_alloc_ok scip h n"
  shows "branchExeclpFullstrong scip h d =
    (case SCIPselectVarStrongBranchingVanilla scip (exec_prefix h n)
            (cands_vars (SCIPgetLPBranchCands scip h)) (cands_sol (SCIPgetLPBranchCands scip h))
            (cands_frac (SCIPgetLPBranchCands scip h)) (cands_nprio (SCIPgetLPBranchCands scip h))
            (data_forcestrongbranch d) (replicate n 0) (replicate n False) SCIP_DIDNOTRUN of
       (rc7, st, result7, h7) \<Rightarrow>
         if rc7 \<noteq> SCIP_OKAY
         then (rc7, d\<lparr>data_scoresize := n, data_latestscores := Some (latestscores st),
                        data_validscores := Some (validscores st)\<rparr>, result7, h7)
         else
           (SCIPretcode scip h7
              (BranchVarVal (cands_vars (SCIPgetLPBranchCands scip h) ! bestcand st)
                 (cands_sol (SCIPgetLPBranchCands scip h) ! bestcand st)),
            d\<lparr>data_scoresize := n, data_latestscores := Some (latestscores st),
               data_validscores := Some (validscores st)\<rparr>,
            if SCIPretcode scip h7
              (BranchVarVal (cands_vars (SCIPgetLPBranchCands scip h) ! bestcand st)
                 (cands_sol (SCIPgetLPBranchCands scip h) ! bestcand st)) \<noteq> SCIP_OKAY
            then result7 else SCIP_BRANCHED,
            h7 @ [BranchVarVal (cands_vars (SCIPgetLPBranchCands scip h) ! bestcand st)
                 (cands_sol (SCIPgetLPBranchCands scip h) ! bestcand st)]))"
  using assms(2,3,4) unfolding assms(1)
  by (auto simp add: branchExeclpFullstrong_def Let_def SCIP_CALL_def cands_copied_def
      first_alloc_ok_def second_alloc_ok_def exec_prefix_def fresh_block_def
      BMSclearMemoryArray_Real_def BMSclearMemoryArray_Bool_def split: prod.splits)



lemma exec_second_alloc_fails:
  assumes "n = length (cands_vars (SCIPgetLPBranchCands scip h))"
    and "cands_copied scip h n" and "first_alloc_ok scip h n" and "\<not> second_alloc_ok scip h n"
  shows "fst (snd (branchExeclpFullstrong scip h d)) =
    d\<lparr>data_scoresize := n, data_latestscores := Some (replicate n 0), data_validscores := None\<rparr>"
  using assms(2,3,4) unfolding assms(1)
  by (auto simp add: branchExeclpFullstrong_def Let_def SCIP_CALL_def cands_copied_def
      first_alloc_ok_def second_alloc_ok_def fresh_block_def split: prod.splits)



lemmas exec_defs =
  branchExeclpFullstrong_def run_defs select_loop.simps exec_prefix_def fresh_block_def
  BMSclearMemoryArray_Real_def BMSclearMemoryArray_Bool_def created_data_def

text \<open>
  C5, as the code has it. The result flag the execute callback hands back is
  \<^verbatim>\<open>SCIP_BRANCHED\<close> exactly when the callback returns \<^verbatim>\<open>SCIP_OKAY\<close>, whether the
  selection ran its loop or returned before it; it is \<^verbatim>\<open>SCIP_DIDNOTRUN\<close> exactly
  when the callback returns an error code.
\<close>

theorem execute_result_flag:
  "fst (snd (snd (branchExeclpFullstrong scip h d))) =
    (if fst (branchExeclpFullstrong scip h d) = SCIP_OKAY then SCIP_BRANCHED else SCIP_DIDNOTRUN)"
  by (auto simp add: branchExeclpFullstrong_def Let_def SCIP_CALL_def split: prod.splits
      dest: select_result_eq)

text \<open>A run that branches on candidate 2, and a run in which the host refuses that
  branching.\<close>

theorem execute_result_flag_witness:
  "fst (branchExeclpFullstrong (test_scip [bounds 11 12, bounds 13 14, bounds 15 16] (\<lambda>v. 1)) []
          created_data) = SCIP_OKAY
   \<and> fst (snd (snd (branchExeclpFullstrong
          (test_scip [bounds 11 12, bounds 13 14, bounds 15 16] (\<lambda>v. 1)) [] created_data))) = SCIP_BRANCHED
   \<and> fst (branchExeclpFullstrong branching_fails_scip [] created_data) = SCIP_BRANCHERROR
   \<and> fst (snd (snd (branchExeclpFullstrong branching_fails_scip [] created_data))) = SCIP_DIDNOTRUN"
proof -
  have a: "fst (branchExeclpFullstrong (test_scip [bounds 11 12, bounds 13 14, bounds 15 16] (\<lambda>v. 1)) []
          created_data) = SCIP_OKAY"
    by (simp add: exec_defs)
  have b: "fst (branchExeclpFullstrong branching_fails_scip [] created_data) = SCIP_BRANCHERROR"
    by (simp add: exec_defs branching_fails_scip_def)
  from a b
    execute_result_flag [of "test_scip [bounds 11 12, bounds 13 14, bounds 15 16] (\<lambda>v. 1)" "[]" created_data]
    execute_result_flag [of branching_fails_scip "[]" created_data]
  show ?thesis by simp
qed

text \<open>C5 as stated fails. The host is stopped when the selection starts, so the
  selection returns before its loop: strong branching is never started and no
  candidate is probed. The callback still branches on candidate 0 and its result
  flag is \<^verbatim>\<open>SCIP_BRANCHED\<close>.\<close>

theorem short_circuit_still_branched:
  "SCIPisStopped stopped_scip []
   \<and> branchExeclpFullstrong stopped_scip [] created_data =
      (SCIP_OKAY,
       \<lparr>data_forcestrongbranch = True, data_scoresize = 3,
        data_latestscores = Some [0, 0, 0], data_validscores = Some [False, False, False]\<rparr>,
       SCIP_BRANCHED,
       exec_prefix [] 3 @ [BranchVarVal 0 (1 / 2)])"
  by (simp add: exec_defs stopped_scip_def)

text \<open>
  C6, as the code has it. If the host hands out one candidate,
  \<^verbatim>\<open>forcestrongbranch\<close> is false and the host lets the callback copy the candidates
  and allocate the buffers, the callback makes no call but these and the branching
  call: the probe is not invoked. Afterwards the one entry of \<^verbatim>\<open>latestscores\<close> is
  0, the content \<^verbatim>\<open>BMSclearMemoryArray\<close> gave it in line 418, and the one entry of
  \<^verbatim>\<open>validscores\<close> is false.
\<close>

theorem single_candidate_not_probed:
  assumes "length (cands_vars (SCIPgetLPBranchCands scip h)) = 1"
    and "\<not> data_forcestrongbranch d"
    and "cands_copied scip h 1" and "first_alloc_ok scip h 1" and "second_alloc_ok scip h 1"
  shows "branchExeclpFullstrong scip h d =
      (SCIPretcode scip (exec_prefix h 1)
         (BranchVarVal (cands_vars (SCIPgetLPBranchCands scip h) ! 0)
            (cands_sol (SCIPgetLPBranchCands scip h) ! 0)),
       d\<lparr>data_scoresize := 1, data_latestscores := Some [0], data_validscores := Some [False]\<rparr>,
       (if SCIPretcode scip (exec_prefix h 1)
         (BranchVarVal (cands_vars (SCIPgetLPBranchCands scip h) ! 0)
            (cands_sol (SCIPgetLPBranchCands scip h) ! 0)) = SCIP_OKAY
        then SCIP_BRANCHED else SCIP_DIDNOTRUN),
       exec_prefix h 1 @
         [BranchVarVal (cands_vars (SCIPgetLPBranchCands scip h) ! 0)
            (cands_sol (SCIPgetLPBranchCands scip h) ! 0)])
    \<and> CheckStage \<notin> set (drop (length h) (snd (snd (snd (branchExeclpFullstrong scip h d)))))"
proof -
  have sel: "SCIPselectVarStrongBranchingVanilla scip (exec_prefix h 1)
            (cands_vars (SCIPgetLPBranchCands scip h)) (cands_sol (SCIPgetLPBranchCands scip h))
            (cands_frac (SCIPgetLPBranchCands scip h)) (cands_nprio (SCIPgetLPBranchCands scip h))
            (data_forcestrongbranch d) (replicate 1 0) (replicate 1 False) SCIP_DIDNOTRUN =
      (SCIP_OKAY,
       init_best (SCIPgetLPObjval scip (exec_prefix h 1)) (SCIPinfinity scip) [0] [False],
       SCIP_DIDNOTRUN, exec_prefix h 1)"
    using assms(1,2) by (simp add: SCIPselectVarStrongBranchingVanilla_def Let_def)
  have run: "branchExeclpFullstrong scip h d =
      (SCIPretcode scip (exec_prefix h 1)
         (BranchVarVal (cands_vars (SCIPgetLPBranchCands scip h) ! 0)
            (cands_sol (SCIPgetLPBranchCands scip h) ! 0)),
       d\<lparr>data_scoresize := 1, data_latestscores := Some [0], data_validscores := Some [False]\<rparr>,
       (if SCIPretcode scip (exec_prefix h 1)
         (BranchVarVal (cands_vars (SCIPgetLPBranchCands scip h) ! 0)
            (cands_sol (SCIPgetLPBranchCands scip h) ! 0)) = SCIP_OKAY
        then SCIP_BRANCHED else SCIP_DIDNOTRUN),
       exec_prefix h 1 @
         [BranchVarVal (cands_vars (SCIPgetLPBranchCands scip h) ! 0)
            (cands_sol (SCIPgetLPBranchCands scip h) ! 0)])"
    unfolding exec_after_alloc [OF assms(1) [symmetric] assms(3,4,5)] sel
    by (simp add: init_best_def)
  show ?thesis
    unfolding run by (simp add: exec_prefix_def)
qed

theorem single_candidate_not_probed_witness:
  "branchExeclpFullstrong single_cand_scip [] (created_data\<lparr>data_forcestrongbranch := False\<rparr>) =
      (SCIP_OKAY,
       \<lparr>data_forcestrongbranch = False, data_scoresize = 1,
        data_latestscores = Some [0], data_validscores = Some [False]\<rparr>,
       SCIP_BRANCHED,
       [GetLPBranchCands, DuplicateBufferArray 1, DuplicateBufferArray 1, DuplicateBufferArray 1,
        AllocBlockMemoryArray 1, AllocBlockMemoryArray 1, BranchVarVal 0 (1 / 2)])"
  using single_candidate_not_probed
    [of single_cand_scip "[]" "created_data\<lparr>data_forcestrongbranch := False\<rparr>"]
  by (simp add: single_cand_scip_def test_scip_def created_data_def cands_copied_def
      first_alloc_ok_def second_alloc_ok_def exec_prefix_def)

text \<open>C6 as stated fails: the entry of \<^verbatim>\<open>latestscores\<close> is 0, not minus infinity.
  The loop that writes minus infinity (lines 262 to 266) comes after the return of
  line 252.\<close>

theorem single_candidate_scores_are_zero:
  "length (cands_vars (SCIPgetLPBranchCands single_cand_scip [])) = 1
   \<and> data_latestscores (fst (snd (branchExeclpFullstrong single_cand_scip []
          (created_data\<lparr>data_forcestrongbranch := False\<rparr>)))) = Some [0]
   \<and> - SCIPinfinity single_cand_scip = - 100000000000000000000"
  by (simp add: exec_defs single_cand_scip_def)




end
